theory Spec2Isabelle
  imports Complex_Main "HOL-Library.Char_ord" "HOL-Library.List_Lexorder"
begin

section \<open>The record store\<close>

text \<open>
  The three CSV tables of \<^verbatim>\<open>lending-platform.py\<close>. \<^verbatim>\<open>load_csv\<close> returns every
  row as a dictionary of strings over the fixed header of its file, so a row is a record
  whose fields are all strings, and a table is the list of its rows in file order.
  The repayments header repeats the key \<^verbatim>\<open>loan_id\<close>; that field is \<open>for_loan\<close> here.
\<close>

record user =
  user_id :: string
  name :: string
  role :: string

record loan =
  loan_id :: string
  borrower_id :: string
  amount :: string
  interest_rate :: string
  duration :: string
  status :: string

record repayment =
  for_loan :: string
  investor_id :: string
  monthly_payment :: string
  due_date :: string
  paid :: string

record store =
  users :: "user list"
  loans :: "loan list"
  repayments :: "repayment list"

definition init_store :: store where
  "init_store = \<lparr>users = [], loans = [], repayments = []\<rparr>"

section \<open>Effects\<close>

text \<open>
  An operation prints messages, appends a row to a file (\<^verbatim>\<open>append_csv\<close>) or rewrites a
  file (\<^verbatim>\<open>write_csv\<close>); it returns normally or an exception leaves it. The trace lists
  the prints and file writes in the order the code performs them.
\<close>

datatype py_error = ValueError | ZeroDivisionError | OverflowError | EOFError

datatype table = Users | Loans | Repayments

datatype message =
    Invalid_role
  | User_registered string string
  | Invalid_borrower
  | Loan_listed string
  | No_open_loans
  | Open_loans_header
  | Open_loan string string string string
  | Invalid_investor
  | Invalid_loan
  | Investment_successful
  | Processed_repayment string string string
  | No_repayments_due
  | Dashboard string string string
  | Menu_text
  | Goodbye
  | Invalid_choice

datatype event = Printed message | Appended table | Rewrote table

record outcome =
  final :: store
  trace :: "event list"
  raised :: "py_error option"

definition returns :: "store \<Rightarrow> event list \<Rightarrow> outcome" where
  "returns st evs = \<lparr>final = st, trace = evs, raised = None\<rparr>"

definition raises :: "store \<Rightarrow> event list \<Rightarrow> py_error \<Rightarrow> outcome" where
  "raises st evs e = \<lparr>final = st, trace = evs, raised = Some e\<rparr>"

definition writes :: "event list \<Rightarrow> event list" where
  "writes evs = filter (\<lambda>ev. case ev of Printed m \<Rightarrow> False | _ \<Rightarrow> True) evs"

section \<open>The Python library\<close>

text \<open>
  The conversions between text and numbers, float arithmetic and the formatting of dates
  belong to Python, not to the program. They are parameters of the model: \<open>'f\<close> is the
  type of floats, and every theorem holds for every interpretation of the fields.
  \<open>float_of\<close> and \<open>int_of\<close> are \<^verbatim>\<open>float(s)\<close> and \<^verbatim>\<open>int(s)\<close> (\<open>None\<close> when they raise
  ValueError), \<open>int_fits d\<close> says that the integer \<open>d\<close> converts to a float (otherwise an
  arithmetic operation mixing it with a float raises OverflowError), \<open>round2\<close> is
  \<^verbatim>\<open>round(x, 2)\<close>, \<open>format2f\<close> is the format \<^verbatim>\<open>:.2f\<close>, \<open>str_float\<close> and \<open>str_int\<close> are
  \<^verbatim>\<open>str\<close>, and \<open>strftime\<close> formats the day with proleptic Gregorian ordinal \<open>n\<close> as
  \<^verbatim>\<open>%Y-%m-%d\<close>.
\<close>

record 'f pylib =
  float_of :: "string \<Rightarrow> 'f option"
  int_of :: "string \<Rightarrow> int option"
  str_float :: "'f \<Rightarrow> string"
  str_int :: "int \<Rightarrow> string"
  float_of_int :: "int \<Rightarrow> 'f"
  int_fits :: "int \<Rightarrow> bool"
  fadd :: "'f \<Rightarrow> 'f \<Rightarrow> 'f"
  fsub :: "'f \<Rightarrow> 'f \<Rightarrow> 'f"
  fmul :: "'f \<Rightarrow> 'f \<Rightarrow> 'f"
  fdiv :: "'f \<Rightarrow> 'f \<Rightarrow> 'f"
  round2 :: "'f \<Rightarrow> 'f"
  format2f :: "'f \<Rightarrow> string"
  strftime :: "int \<Rightarrow> string"

text \<open>\<^verbatim>\<open>str.lower\<close> on the ASCII letters; no other character lowers to a letter of
  \<^verbatim>\<open>borrower\<close> or \<^verbatim>\<open>investor\<close>.\<close>

definition lower_char :: "char \<Rightarrow> char" where
  "lower_char c =
     (let n = (of_char c :: int) in if 65 \<le> n \<and> n \<le> 90 then char_of (n + 32) else c)"

definition lower :: "string \<Rightarrow> string" where
  "lower s = map lower_char s"

text \<open>The last day of \<^verbatim>\<open>datetime\<close> (9999-12-31) and the largest \<^verbatim>\<open>timedelta\<close>, in days.\<close>

definition max_ordinal :: int where
  "max_ordinal = 3652059"

definition max_delta_days :: int where
  "max_delta_days = 999999999"

section \<open>Business logic\<close>

subsection \<open>register_user\<close>

definition register_user :: "string \<Rightarrow> store \<Rightarrow> string \<Rightarrow> string \<Rightarrow> outcome" where
  "register_user new_id st name_in role_in =
     (let role = lower role_in in
      if role \<notin> {''borrower'', ''investor''} then returns st [Printed Invalid_role]
      else returns
             (st\<lparr>users := users st @ [\<lparr>user_id = new_id, name = name_in, role = role\<rparr>]\<rparr>)
             [Appended Users, Printed (User_registered name_in new_id)])"

subsection \<open>list_loan\<close>

definition has_role :: "user list \<Rightarrow> string \<Rightarrow> string \<Rightarrow> bool" where
  "has_role us uid r = list_ex (\<lambda>u. user_id u = uid \<and> role u = r) us"

definition list_loan ::
  "'f pylib \<Rightarrow> string \<Rightarrow> store \<Rightarrow> string \<Rightarrow> string \<Rightarrow> string \<Rightarrow> string \<Rightarrow> outcome" where
  "list_loan L new_id st borrower amount_in rate_in duration_in =
     (if \<not> has_role (users st) borrower ''borrower'' then returns st [Printed Invalid_borrower]
      else case float_of L amount_in of
        None \<Rightarrow> raises st [] ValueError
      | Some a \<Rightarrow>
      (case float_of L rate_in of
        None \<Rightarrow> raises st [] ValueError
      | Some r \<Rightarrow>
      (case int_of L duration_in of
        None \<Rightarrow> raises st [] ValueError
      | Some d \<Rightarrow>
          returns
            (st\<lparr>loans := loans st @
               [\<lparr>loan_id = new_id, borrower_id = borrower, amount = str_float L a,
                 interest_rate = str_float L r, duration = str_int L d,
                 status = ''open''\<rparr>]\<rparr>)
            [Appended Loans, Printed (Loan_listed new_id)])))"

subsection \<open>view_loans\<close>

definition view_loans :: "store \<Rightarrow> event list" where
  "view_loans st =
     (let open_loans = filter (\<lambda>l. status l = ''open'') (loans st) in
      if open_loans = [] then [Printed No_open_loans]
      else Printed Open_loans_header #
           map (\<lambda>l. Printed (Open_loan (loan_id l) (amount l) (interest_rate l) (duration l)))
               open_loans)"

subsection \<open>invest\<close>

text \<open>Line 101: the operands are evaluated from left to right, so a field that does not
  parse, a duration too large for a float and a duration of zero raise in this order.\<close>

definition payment_of :: "'f pylib \<Rightarrow> 'f \<Rightarrow> 'f \<Rightarrow> int \<Rightarrow> 'f" where
  "payment_of L a r d =
     round2 L (fdiv L (fmul L a (fadd L (float_of_int L 1) (fdiv L r (float_of_int L 100))))
                      (float_of_int L d))"

definition monthly_payment_for :: "'f pylib \<Rightarrow> loan \<Rightarrow> py_error + ('f \<times> int)" where
  "monthly_payment_for L l =
     (case float_of L (amount l) of
        None \<Rightarrow> Inl ValueError
      | Some a \<Rightarrow>
      (case float_of L (interest_rate l) of
        None \<Rightarrow> Inl ValueError
      | Some r \<Rightarrow>
      (case int_of L (duration l) of
        None \<Rightarrow> Inl ValueError
      | Some d \<Rightarrow>
          if \<not> int_fits L d then Inl OverflowError
          else if d = 0 then Inl ZeroDivisionError
          else Inr (payment_of L a r d, d))))"

text \<open>The loop of lines 102 to 110 over \<^verbatim>\<open>range(duration)\<close>: the rows appended, and the
  OverflowError of the date arithmetic if an iteration raises it (the rows of the earlier
  iterations are in the file by then). Line 103 reads the clock in every iteration:
  \<open>today i\<close> is the day, as a proleptic Gregorian ordinal, that \<^verbatim>\<open>datetime.today()\<close>
  returns in iteration \<open>i\<close>.\<close>

definition installment ::
  "'f pylib \<Rightarrow> (nat \<Rightarrow> int) \<Rightarrow> string \<Rightarrow> string \<Rightarrow> 'f \<Rightarrow> nat \<Rightarrow> repayment" where
  "installment L today lid investor mp i =
     \<lparr>for_loan = lid, investor_id = investor, monthly_payment = str_float L mp,
      due_date = strftime L (today i + 30 * (int i + 1)), paid = ''False''\<rparr>"

fun installments ::
  "'f pylib \<Rightarrow> (nat \<Rightarrow> int) \<Rightarrow> string \<Rightarrow> string \<Rightarrow> 'f \<Rightarrow> nat list \<Rightarrow>
   repayment list \<times> py_error option"
where
  "installments L today lid investor mp [] = ([], None)"
| "installments L today lid investor mp (i # rest) =
     (if max_delta_days < 30 * (int i + 1) \<or> max_ordinal < today i + 30 * (int i + 1)
      then ([], Some OverflowError)
      else (case installments L today lid investor mp rest of
              (rows, e) \<Rightarrow> (installment L today lid investor mp i # rows, e)))"

definition mark_funded :: "string \<Rightarrow> loan list \<Rightarrow> loan list" where
  "mark_funded lid ls = map (\<lambda>l. if loan_id l = lid then l\<lparr>status := ''funded''\<rparr> else l) ls"

definition invest ::
  "'f pylib \<Rightarrow> (nat \<Rightarrow> int) \<Rightarrow> store \<Rightarrow> string \<Rightarrow> string \<Rightarrow> outcome" where
  "invest L today st investor lid =
     (if \<not> has_role (users st) investor ''investor'' then returns st [Printed Invalid_investor]
      else case find (\<lambda>l. loan_id l = lid \<and> status l = ''open'') (loans st) of
        None \<Rightarrow> returns st (view_loans st @ [Printed Invalid_loan])
      | Some l \<Rightarrow>
      (case monthly_payment_for L l of
        Inl e \<Rightarrow> raises st (view_loans st) e
      | Inr (mp, d) \<Rightarrow>
      (case installments L today lid investor mp [0..<nat d] of
        (rows, Some e) \<Rightarrow>
          raises (st\<lparr>repayments := repayments st @ rows\<rparr>)
                 (view_loans st @ map (\<lambda>r. Appended Repayments) rows) e
      | (rows, None) \<Rightarrow>
          returns (st\<lparr>repayments := repayments st @ rows,
                      loans := mark_funded lid (loans st)\<rparr>)
                  (view_loans st @ map (\<lambda>r. Appended Repayments) rows @
                   [Rewrote Loans, Printed Investment_successful]))))"

subsection \<open>process_repayments\<close>

definition is_due :: "string \<Rightarrow> repayment \<Rightarrow> bool" where
  "is_due today r \<longleftrightarrow> due_date r \<le> today \<and> paid r = ''False''"

definition settle :: "string \<Rightarrow> repayment \<Rightarrow> repayment" where
  "settle today r = (if is_due today r then r\<lparr>paid := ''True''\<rparr> else r)"

definition process_repayments :: "'f pylib \<Rightarrow> int \<Rightarrow> store \<Rightarrow> outcome" where
  "process_repayments L clock st =
     (let today = strftime L clock;
          due = filter (is_due today) (repayments st);
          printed = map (\<lambda>r. Printed (Processed_repayment (monthly_payment r) (for_loan r)
                                        (investor_id r))) due
      in if due \<noteq> []
         then returns (st\<lparr>repayments := map (settle today) (repayments st)\<rparr>)
                      (printed @ [Rewrote Repayments])
         else returns st [Printed No_repayments_due])"

subsection \<open>investor_dashboard\<close>

text \<open>\<^verbatim>\<open>sum\<close> over a generator: each \<^verbatim>\<open>monthly_payment\<close> is parsed when the sum reaches it,
  and the sum starts from 0. The three printed numbers are kept as a record before they
  are formatted.\<close>

fun sum_floats :: "'f pylib \<Rightarrow> 'f \<Rightarrow> string list \<Rightarrow> py_error + 'f" where
  "sum_floats L acc [] = Inr acc"
| "sum_floats L acc (s # rest) =
     (case float_of L s of
        None \<Rightarrow> Inl ValueError
      | Some x \<Rightarrow> sum_floats L (fadd L acc x) rest)"

definition total_of :: "'f pylib \<Rightarrow> repayment list \<Rightarrow> py_error + 'f" where
  "total_of L rs = sum_floats L (float_of_int L 0) (map monthly_payment rs)"

text \<open>The sum of the specification: the monthly payments of the rows, added from 0 in
  the order of the table; there is none when a field is not a number.\<close>

definition sum_of_payments :: "'f pylib \<Rightarrow> repayment list \<Rightarrow> 'f option" where
  "sum_of_payments L rs =
     map_option (foldl (fadd L) (float_of_int L 0))
                (those (map (\<lambda>r. float_of L (monthly_payment r)) rs))"

record 'f summary =
  expected_total :: 'f
  paid_total :: 'f
  outstanding :: 'f

definition investor_summary ::
  "'f pylib \<Rightarrow> repayment list \<Rightarrow> string \<Rightarrow> py_error + 'f summary" where
  "investor_summary L data investor =
     (case total_of L (filter (\<lambda>r. investor_id r = investor) data) of
        Inl e \<Rightarrow> Inl e
      | Inr total_expected \<Rightarrow>
      (case total_of L (filter (\<lambda>r. investor_id r = investor \<and> paid r = ''True'') data) of
        Inl e \<Rightarrow> Inl e
      | Inr total_paid \<Rightarrow>
          Inr \<lparr>expected_total = total_expected, paid_total = total_paid,
               outstanding = fsub L total_expected total_paid\<rparr>))"

definition investor_dashboard :: "'f pylib \<Rightarrow> store \<Rightarrow> string \<Rightarrow> outcome" where
  "investor_dashboard L st investor =
     (case investor_summary L (repayments st) investor of
        Inl e \<Rightarrow> raises st [] e
      | Inr s \<Rightarrow>
          returns st [Printed (Dashboard (format2f L (expected_total s))
                                         (format2f L (paid_total s))
                                         (format2f L (outstanding s)))])"

section \<open>The menu\<close>

text \<open>
  One turn of the loop: the choice typed at the menu, with the lines typed at the prompts
  of the chosen operation and what the operation reads from its environment (the
  identifier \<^verbatim>\<open>generate_id\<close> returns, the days of \<^verbatim>\<open>datetime.today\<close>). A line stands for
  what is typed if the operation reaches its prompt: the loan identifier of \<open>Invest\<close> is
  read at line 95, only once the check of the investor has passed. \<open>Other\<close> is any choice
  that is none of 1 to 7.
\<close>

datatype command =
    Register string string string
  | List_loan string string string string string
  | View_loans
  | Invest string string "nat \<Rightarrow> int"
  | Process int
  | Show_dashboard string
  | Exit_menu
  | Other string

fun run_command :: "'f pylib \<Rightarrow> store \<Rightarrow> command \<Rightarrow> outcome" where
  "run_command L st (Register name_in role_in new_id) = register_user new_id st name_in role_in"
| "run_command L st (List_loan borrower amount_in rate_in duration_in new_id) =
     list_loan L new_id st borrower amount_in rate_in duration_in"
| "run_command L st View_loans = returns st (view_loans st)"
| "run_command L st (Invest investor lid today) = invest L today st investor lid"
| "run_command L st (Process today) = process_repayments L today st"
| "run_command L st (Show_dashboard investor) = investor_dashboard L st investor"
| "run_command L st Exit_menu = returns st [Printed Goodbye]"
| "run_command L st (Other c) = returns st [Printed Invalid_choice]"

text \<open>\<^verbatim>\<open>menu\<close> on the turns typed before the input ends: the loop leaves by \<^verbatim>\<open>break\<close> at
  choice 7, by the exception of an operation (nothing catches it), or by the EOFError of
  \<^verbatim>\<open>input\<close> when no turn is left.\<close>

definition after :: "event list \<Rightarrow> outcome \<Rightarrow> outcome" where
  "after evs out = out\<lparr>trace := evs @ trace out\<rparr>"

fun menu :: "'f pylib \<Rightarrow> store \<Rightarrow> command list \<Rightarrow> outcome" where
  "menu L st [] = raises st [Printed Menu_text] EOFError"
| "menu L st (c # cs) =
     (let out = run_command L st c in
      if c = Exit_menu \<or> raised out \<noteq> None then after [Printed Menu_text] out
      else after (Printed Menu_text # trace out) (menu L (final out) cs))"

text \<open>The files outlive the process, so the stores the program can meet are those that
  some sequence of operations, each completed or interrupted by an exception, leaves
  behind from the three empty tables of \<^verbatim>\<open>init_csv\<close>: the reachable stores are
  \<open>store_after L init_store cs\<close>.\<close>

fun store_after :: "'f pylib \<Rightarrow> store \<Rightarrow> command list \<Rightarrow> store" where
  "store_after L st [] = st"
| "store_after L st (c # cs) = store_after L (final (run_command L st c)) cs"

section \<open>An exact decimal library\<close>

text \<open>
  An interpretation of the library for running examples: floats are rationals, written in
  plain decimal notation, and the arithmetic is exact.
\<close>

definition digit_of :: "char \<Rightarrow> int option" where
  "digit_of c = (let n = (of_char c :: int) in if 48 \<le> n \<and> n \<le> 57 then Some (n - 48) else None)"

fun int_of_digits :: "int \<Rightarrow> string \<Rightarrow> int option" where
  "int_of_digits acc [] = Some acc"
| "int_of_digits acc (c # cs) =
     (case digit_of c of None \<Rightarrow> None | Some d \<Rightarrow> int_of_digits (10 * acc + d) cs)"

definition parse_digits :: "string \<Rightarrow> int option" where
  "parse_digits s = (if s = [] then None else int_of_digits 0 s)"

definition parse_unsigned :: "string \<Rightarrow> rat option" where
  "parse_unsigned s =
     (let whole = takeWhile (\<lambda>c. c \<noteq> CHR ''.'') s; rest = dropWhile (\<lambda>c. c \<noteq> CHR ''.'') s in
      case parse_digits whole of
        None \<Rightarrow> None
      | Some w \<Rightarrow>
          if rest = [] then Some (of_int w)
          else (case parse_digits (tl rest) of
                  None \<Rightarrow> None
                | Some f \<Rightarrow> Some (of_int w + of_int f / 10 ^ length (tl rest))))"

definition signed :: "(string \<Rightarrow> 'a::uminus option) \<Rightarrow> string \<Rightarrow> 'a option" where
  "signed p s =
     (case s of
        [] \<Rightarrow> None
      | c # cs \<Rightarrow> if c = CHR ''-'' then map_option uminus (p cs)
                 else if c = CHR ''+'' then p cs else p s)"

definition parse_int :: "string \<Rightarrow> int option" where
  "parse_int = signed parse_digits"

definition parse_decimal :: "string \<Rightarrow> rat option" where
  "parse_decimal = signed parse_unsigned"

text \<open>The decimal digits of an integer that is not negative.\<close>

function digits_of :: "int \<Rightarrow> string" where
  "digits_of n =
     (if n < 10 then [char_of (48 + n)] else digits_of (n div 10) @ [char_of (48 + n mod 10)])"
  by pat_completeness auto
termination
  by (relation "measure nat") auto

declare digits_of.simps [simp del]

definition show_int :: "int \<Rightarrow> string" where
  "show_int i = (if i < 0 then CHR ''-'' # digits_of (- i) else digits_of i)"

definition pad :: "nat \<Rightarrow> string \<Rightarrow> string" where
  "pad w s = replicate (w - length s) CHR ''0'' @ s"

fun fraction_digits :: "nat \<Rightarrow> rat \<Rightarrow> string" where
  "fraction_digits 0 r = []"
| "fraction_digits (Suc k) r =
     (if r = 0 then []
      else digits_of \<lfloor>r * 10\<rfloor> @ fraction_digits k (r * 10 - of_int \<lfloor>r * 10\<rfloor>))"

definition show_decimal :: "rat \<Rightarrow> string" where
  "show_decimal x =
     (let a = \<bar>x\<bar>; ds = fraction_digits 17 (a - of_int \<lfloor>a\<rfloor>) in
      (if x < 0 then ''-'' else []) @ digits_of \<lfloor>a\<rfloor> @ ''.'' @
      (if ds = [] then ''0'' else ds))"

definition round_half_even :: "rat \<Rightarrow> int" where
  "round_half_even x =
     (let f = \<lfloor>x\<rfloor>; r = x - of_int f in
      if r < 1 / 2 then f else if 1 / 2 < r then f + 1 else if even f then f else f + 1)"

definition show_hundredths :: "rat \<Rightarrow> string" where
  "show_hundredths x =
     (let h = round_half_even (\<bar>x\<bar> * 100) in
      (if x < 0 \<and> h \<noteq> 0 then ''-'' else []) @ digits_of (h div 100) @ ''.'' @
      pad 2 (digits_of (h mod 100)))"

text \<open>Year, month and day of a proleptic Gregorian ordinal, by the cycles of 400, 100 and 4
  years.\<close>

fun month_day :: "int list \<Rightarrow> int \<Rightarrow> int \<Rightarrow> int \<times> int" where
  "month_day [] m n = (m, n + 1)"
| "month_day (len # rest) m n = (if n < len then (m, n + 1) else month_day rest (m + 1) (n - len))"

definition ymd_of_ordinal :: "int \<Rightarrow> int \<times> int \<times> int" where
  "ymd_of_ordinal ordinal =
     (let n0 = ordinal - 1;
          n400 = n0 div 146097; r400 = n0 mod 146097;
          n100 = r400 div 36524; r100 = r400 mod 36524;
          n4 = r100 div 1461; r4 = r100 mod 1461;
          n1 = r4 div 365; n = r4 mod 365;
          year = n400 * 400 + n100 * 100 + n4 * 4 + n1 + 1
      in if n1 = 4 \<or> n100 = 4 then (year - 1, 12, 31)
         else let leap = (n1 = 3 \<and> (n4 \<noteq> 24 \<or> n100 = 3))
              in case month_day [31, if leap then 29 else 28, 31, 30, 31, 30, 31, 31, 30, 31, 30]
                        1 n of
                   (m, d) \<Rightarrow> (year, m, d))"

definition iso_date :: "int \<Rightarrow> string" where
  "iso_date ordinal =
     (case ymd_of_ordinal ordinal of
        (y, m, d) \<Rightarrow>
          pad 4 (digits_of y) @ ''-'' @ pad 2 (digits_of m) @ ''-'' @ pad 2 (digits_of d))"

definition decimal_lib :: "rat pylib" where
  "decimal_lib =
     \<lparr>float_of = parse_decimal, int_of = parse_int, str_float = show_decimal,
      str_int = show_int, float_of_int = of_int, int_fits = (\<lambda>d. \<bar>d\<bar> < 2 ^ 1024),
      fadd = (+), fsub = (-), fmul = (*), fdiv = (/),
      round2 = (\<lambda>x. of_int (round_half_even (x * 100)) / 100),
      format2f = show_hundredths, strftime = iso_date\<rparr>"

section \<open>Example stores\<close>

text \<open>Alice has listed a loan of 1000 at 10 percent over two months, and Bob is an
  investor. Day 739252 is 2025-01-01.\<close>

definition alice :: user where
  "alice = \<lparr>user_id = ''a1b2c3d4'', name = ''Alice'', role = ''borrower''\<rparr>"

definition bob :: user where
  "bob = \<lparr>user_id = ''e5f6a7b8'', name = ''Bob'', role = ''investor''\<rparr>"

definition loan_of :: "string \<Rightarrow> string \<Rightarrow> string \<Rightarrow> string \<Rightarrow> loan" where
  "loan_of lid amt months st =
     \<lparr>loan_id = lid, borrower_id = ''a1b2c3d4'', amount = amt, interest_rate = ''10.0'',
      duration = months, status = st\<rparr>"

definition listed :: store where
  "listed = \<lparr>users = [alice, bob], loans = [loan_of ''0c9d8e7f'' ''1000.0'' ''2'' ''open''],
             repayments = []\<rparr>"

text \<open>The clock of a call that runs within one day, and of a call during which midnight
  passes after \<open>n\<close> readings.\<close>

definition fixed_day :: "int \<Rightarrow> nat \<Rightarrow> int" where
  "fixed_day day i = day"

definition midnight_after :: "nat \<Rightarrow> int \<Rightarrow> nat \<Rightarrow> int" where
  "midnight_after n day i = (if i < n then day else day + 1)"

text \<open>The same store once Bob has funded the loan on that day.\<close>

definition installment_of :: "string \<Rightarrow> string \<Rightarrow> repayment" where
  "installment_of due flag =
     \<lparr>for_loan = ''0c9d8e7f'', investor_id = ''e5f6a7b8'', monthly_payment = ''550.0'',
      due_date = due, paid = flag\<rparr>"

definition funded :: store where
  "funded = \<lparr>users = [alice, bob], loans = [loan_of ''0c9d8e7f'' ''1000.0'' ''2'' ''funded''],
             repayments = [installment_of ''2025-01-31'' ''False'',
                           installment_of ''2025-03-02'' ''False'']\<rparr>"

text \<open>Loans whose duration was entered as a negative number of months.\<close>

definition listed_negative :: store where
  "listed_negative =
     \<lparr>users = [alice, bob], loans = [loan_of ''0c9d8e7f'' ''1000.0'' ''-3'' ''open''],
      repayments = []\<rparr>"

definition listed_minus_one :: store where
  "listed_minus_one =
     \<lparr>users = [alice, bob], loans = [loan_of ''0c9d8e7f'' ''1000.0'' ''-1'' ''open''],
      repayments = []\<rparr>"

text \<open>Two open loans for which \<^verbatim>\<open>generate_id\<close> returned the same token.\<close>

definition listed_twice :: store where
  "listed_twice =
     \<lparr>users = [alice, bob],
      loans = [loan_of ''0c9d8e7f'' ''1000.0'' ''2'' ''open'',
               loan_of ''0c9d8e7f'' ''500.0'' ''1'' ''open''],
      repayments = []\<rparr>"

text \<open>The funded store once the first installment has been paid.\<close>

definition first_paid :: store where
  "first_paid = funded\<lparr>repayments := [installment_of ''2025-01-31'' ''True'',
                                         installment_of ''2025-03-02'' ''False'']\<rparr>"

text \<open>The funded store once both installments have been paid.\<close>

definition both_paid :: store where
  "both_paid = funded\<lparr>repayments := [installment_of ''2025-01-31'' ''True'',
                                        installment_of ''2025-03-02'' ''True'']\<rparr>"

text \<open>The turns that lead from the empty tables to the store \<open>listed\<close>.\<close>

definition listing_session :: "command list" where
  "listing_session =
     [Register ''Alice'' ''Borrower'' ''a1b2c3d4'', Register ''Bob'' ''investor'' ''e5f6a7b8'',
      List_loan ''a1b2c3d4'' ''1000'' ''10'' ''2'' ''0c9d8e7f'']"

section \<open>Facts about the operations\<close>

subsection \<open>invest\<close>

lemma view_loans_prints: "ev \<in> set (view_loans st) \<Longrightarrow>
   ev = Printed No_open_loans \<or> ev = Printed Open_loans_header \<or>
   (\<exists>a b c d. ev = Printed (Open_loan a b c d))"
  by (auto simp: view_loans_def Let_def split: if_splits)

lemma writes_view_loans: "writes (view_loans st) = []"
  by (auto simp: writes_def filter_empty_conv dest!: view_loans_prints)

lemma writes_append: "writes (xs @ ys) = writes xs @ writes ys"
  by (simp add: writes_def)

lemma writes_appended: "writes (map (\<lambda>r. Appended t) rows) = replicate (length rows) (Appended t)"
  by (induction rows) (simp_all add: writes_def)

lemma installments_None:
  "installments L today lid investor mp is = (rows, None) \<Longrightarrow>
   rows = map (installment L today lid investor mp) is"
  by (induction "is" arbitrary: rows) (auto split: if_splits prod.splits)

lemma monthly_payment_for_Inr:
  "monthly_payment_for L l = Inr (mp, d) \<Longrightarrow>
   \<exists>a r. float_of L (amount l) = Some a \<and> float_of L (interest_rate l) = Some r \<and>
         int_of L (duration l) = Some d \<and> d \<noteq> 0 \<and> int_fits L d \<and> mp = payment_of L a r d"
  by (auto simp: monthly_payment_for_def split: option.splits if_splits)

lemma invest_success:
  assumes "Printed Investment_successful \<in> set (trace (invest L today st investor lid))"
  shows "\<exists>l mp d.
     has_role (users st) investor ''investor'' \<and>
     find (\<lambda>l. loan_id l = lid \<and> status l = ''open'') (loans st) = Some l \<and>
     monthly_payment_for L l = Inr (mp, d) \<and>
     invest L today st investor lid =
       returns (st\<lparr>repayments := repayments st @ map (installment L today lid investor mp) [0..<nat d],
                   loans := mark_funded lid (loans st)\<rparr>)
               (view_loans st @ map (\<lambda>r. Appended Repayments) (map (installment L today lid investor mp) [0..<nat d]) @
                [Rewrote Loans, Printed Investment_successful])"
proof (cases "has_role (users st) investor ''investor''")
  case False
  with assms show ?thesis by (simp add: invest_def returns_def)
next
  case role: True
  show ?thesis
  proof (cases "find (\<lambda>l. loan_id l = lid \<and> status l = ''open'') (loans st)")
    case None
    with assms role show ?thesis
      by (auto simp: invest_def returns_def dest: view_loans_prints)
  next
    case (Some l)
    show ?thesis
    proof (cases "monthly_payment_for L l")
      case (Inl e)
      with assms role Some show ?thesis
        by (auto simp: invest_def raises_def dest: view_loans_prints)
    next
      case (Inr p)
      obtain mp d where p: "p = (mp, d)" by (cases p)
      obtain rows e where ins: "installments L today lid investor mp [0..<nat d] = (rows, e)"
        by (cases "installments L today lid investor mp [0..<nat d]")
      show ?thesis
      proof (cases e)
        case None
        with ins have "rows = map (installment L today lid investor mp) [0..<nat d]"
          by (simp add: installments_None)
        with role Some Inr p ins None show ?thesis
          by (simp add: invest_def)
      next
        case (Some err)
        with assms role \<open>find _ _ = Some l\<close> Inr p ins show ?thesis
          by (auto simp: invest_def raises_def dest: view_loans_prints)
      qed
    qed
  qed
qed

lemma find_first:
  "find P xs = Some l \<Longrightarrow> \<exists>k < length xs. xs ! k = l \<and> P (xs ! k) \<and> (\<forall>j < k. \<not> P (xs ! j))"
  by (auto simp: find_Some_iff)

section \<open>The claims about invest\<close>

text \<open>
  An investment is successful when \<^verbatim>\<open>invest\<close> reaches its last line and prints that it
  is: the investor is valid, an open loan has the identifier typed, line 101 raises
  nothing and neither does the loop.
\<close>

text \<open>
  Claim C1, as amended. Take a successful \<^verbatim>\<open>invest\<close> and any loan, at position \<open>m\<close> of the
  table, that it funds: its status was not \<^verbatim>\<open>funded\<close> before and is \<^verbatim>\<open>funded\<close> after. Then
  the loan carries the identifier typed, and the installment rows that the call creates,
  all with this identifier, are computed from the first open loan of the table with
  this identifier, at position \<open>k\<close>; it is the loan \<open>m\<close> itself when the identifiers of the
  table are distinct. The number of rows is the duration of loan \<open>k\<close> when it is positive
  and zero when it is negative, and every row carries the same \<^verbatim>\<open>monthly_payment\<close>, the
  text of \<^verbatim>\<open>round(amount * (1 + interest_rate/100) / duration, 2)\<close> computed from the
  stored fields of loan \<open>k\<close>.
\<close>

theorem invest_installment_count_and_payment:
  assumes "Printed Investment_successful \<in> set (trace (invest L today st investor lid))"
    and "m < length (loans st)"
    and "status (loans st ! m) \<noteq> ''funded''"
    and "status (loans (final (invest L today st investor lid)) ! m) = ''funded''"
  shows "\<exists>k a r d rows.
     loan_id (loans st ! m) = lid \<and>
     k < length (loans st) \<and> loan_id (loans st ! k) = lid \<and> status (loans st ! k) = ''open'' \<and>
     (\<forall>j < k. \<not> (loan_id (loans st ! j) = lid \<and> status (loans st ! j) = ''open'')) \<and>
     (distinct (map loan_id (loans st)) \<longrightarrow> k = m) \<and>
     float_of L (amount (loans st ! k)) = Some a \<and>
     float_of L (interest_rate (loans st ! k)) = Some r \<and>
     int_of L (duration (loans st ! k)) = Some d \<and>
     repayments (final (invest L today st investor lid)) = repayments st @ rows \<and>
     int (length rows) = (if 0 < d then d else 0) \<and>
     list_all (\<lambda>row. for_loan row = lid \<and> monthly_payment row =
        str_float L (round2 L (fdiv L (fmul L a (fadd L (float_of_int L 1)
                                                 (fdiv L r (float_of_int L 100))))
                                      (float_of_int L d)))) rows"
proof -
  from invest_success [OF assms(1)] obtain l mp d where
    f: "find (\<lambda>l. loan_id l = lid \<and> status l = ''open'') (loans st) = Some l" and
    mp: "monthly_payment_for L l = Inr (mp, d)" and
    i: "invest L today st investor lid =
       returns (st\<lparr>repayments := repayments st @ map (installment L today lid investor mp) [0..<nat d],
                   loans := mark_funded lid (loans st)\<rparr>)
               (view_loans st @ map (\<lambda>r. Appended Repayments) (map (installment L today lid investor mp) [0..<nat d]) @
                [Rewrote Loans, Printed Investment_successful])"
    by blast
  from find_first [OF f] obtain k where
    k: "k < length (loans st)" "loans st ! k = l"
       "loan_id (loans st ! k) = lid" "status (loans st ! k) = ''open''"
       "\<forall>j < k. \<not> (loan_id (loans st ! j) = lid \<and> status (loans st ! j) = ''open'')"
    by blast
  from monthly_payment_for_Inr [OF mp] k(2) obtain a r where
    p: "float_of L (amount (loans st ! k)) = Some a"
       "float_of L (interest_rate (loans st ! k)) = Some r"
       "int_of L (duration (loans st ! k)) = Some d" "mp = payment_of L a r d"
    by blast
  have ls: "loans (final (invest L today st investor lid)) = mark_funded lid (loans st)"
    by (simp add: i returns_def)
  have mid: "loan_id (loans st ! m) = lid"
  proof (rule ccontr)
    assume "loan_id (loans st ! m) \<noteq> lid"
    with assms(2) have "loans (final (invest L today st investor lid)) ! m = loans st ! m"
      by (simp add: ls mark_funded_def)
    with assms(3,4) show False by simp
  qed
  have dist: "distinct (map loan_id (loans st)) \<longrightarrow> k = m"
  proof
    assume d: "distinct (map loan_id (loans st))"
    show "k = m"
    proof (rule ccontr)
      assume "k \<noteq> m"
      with d k(1) assms(2) have "loan_id (loans st ! k) \<noteq> loan_id (loans st ! m)"
        by (metis distinct_conv_nth length_map nth_map)
      with k(3) mid show False by simp
    qed
  qed
  let ?rows = "map (installment L today lid investor mp) [0..<nat d]"
  have 1: "repayments (final (invest L today st investor lid)) = repayments st @ ?rows"
    by (simp add: i returns_def)
  have 2: "int (length ?rows) = (if 0 < d then d else 0)"
    by simp
  have 3: "list_all (\<lambda>row. for_loan row = lid \<and> monthly_payment row =
        str_float L (round2 L (fdiv L (fmul L a (fadd L (float_of_int L 1)
                                                 (fdiv L r (float_of_int L 100))))
                                      (float_of_int L d)))) ?rows"
    by (simp add: list_all_iff installment_def p(4) payment_of_def)
  from mid k(1,3,4,5) dist p(1-3) 1 2 3 show ?thesis by blast
qed

text \<open>Two open loans share an identifier and Bob funds it: the second loan, 500 over
  one month, is funded by the call, with the rows of the first.\<close>

theorem invest_installment_count_and_payment_witness:
  "Printed Investment_successful
     \<in> set (trace (invest decimal_lib (fixed_day 739252) listed_twice ''e5f6a7b8'' ''0c9d8e7f'')) \<and>
   1 < length (loans listed_twice) \<and>
   status (loans listed_twice ! 1) \<noteq> ''funded'' \<and>
   status (loans (final (invest decimal_lib (fixed_day 739252) listed_twice
                           ''e5f6a7b8'' ''0c9d8e7f'')) ! 1) = ''funded'' \<and>
   (\<exists>k a r d rows.
     loan_id (loans listed_twice ! 1) = ''0c9d8e7f'' \<and>
     k < length (loans listed_twice) \<and> loan_id (loans listed_twice ! k) = ''0c9d8e7f'' \<and>
     status (loans listed_twice ! k) = ''open'' \<and>
     (\<forall>j < k. \<not> (loan_id (loans listed_twice ! j) = ''0c9d8e7f'' \<and>
                  status (loans listed_twice ! j) = ''open'')) \<and>
     (distinct (map loan_id (loans listed_twice)) \<longrightarrow> k = 1) \<and>
     float_of decimal_lib (amount (loans listed_twice ! k)) = Some a \<and>
     float_of decimal_lib (interest_rate (loans listed_twice ! k)) = Some r \<and>
     int_of decimal_lib (duration (loans listed_twice ! k)) = Some d \<and>
     repayments (final (invest decimal_lib (fixed_day 739252) listed_twice
                          ''e5f6a7b8'' ''0c9d8e7f'')) =
       repayments listed_twice @ rows \<and>
     int (length rows) = (if 0 < d then d else 0) \<and>
     list_all (\<lambda>row. for_loan row = ''0c9d8e7f'' \<and> monthly_payment row =
        str_float decimal_lib (round2 decimal_lib (fdiv decimal_lib (fmul decimal_lib a
           (fadd decimal_lib (float_of_int decimal_lib 1)
                 (fdiv decimal_lib r (float_of_int decimal_lib 100))))
           (float_of_int decimal_lib d)))) rows)"
proof -
  have h: "Printed Investment_successful
     \<in> set (trace (invest decimal_lib (fixed_day 739252) listed_twice ''e5f6a7b8'' ''0c9d8e7f''))"
    by code_simp
  have m: "1 < length (loans listed_twice)"
    by (simp add: listed_twice_def)
  have before: "status (loans listed_twice ! 1) \<noteq> ''funded''"
    by code_simp
  have after: "status (loans (final (invest decimal_lib (fixed_day 739252) listed_twice
                           ''e5f6a7b8'' ''0c9d8e7f'')) ! 1) = ''funded''"
    by code_simp
  note c = invest_installment_count_and_payment [OF h m before after]
  show ?thesis by (intro conjI) (rule h m before after c)+
qed

text \<open>
  The claim as first stated, with the number of rows equal to the duration for every
  funded loan, fails for a loan listed with duration -3: \<^verbatim>\<open>list_loan\<close> accepts any integer,
  \<^verbatim>\<open>range(-3)\<close> is empty, and the loan is funded with no installment.
\<close>

theorem invest_negative_duration_counterexample:
  "Printed Investment_successful
     \<in> set (trace (invest decimal_lib (fixed_day 739252) listed_negative ''e5f6a7b8'' ''0c9d8e7f'')) \<and>
   find (\<lambda>l. loan_id l = ''0c9d8e7f'' \<and> status l = ''open'') (loans listed_negative) =
     Some (loan_of ''0c9d8e7f'' ''1000.0'' ''-3'' ''open'') \<and>
   int_of decimal_lib (duration (loan_of ''0c9d8e7f'' ''1000.0'' ''-3'' ''open'')) = Some (- 3) \<and>
   loans (final (invest decimal_lib (fixed_day 739252) listed_negative ''e5f6a7b8'' ''0c9d8e7f'')) =
     [loan_of ''0c9d8e7f'' ''1000.0'' ''-3'' ''funded''] \<and>
   repayments (final (invest decimal_lib (fixed_day 739252) listed_negative ''e5f6a7b8'' ''0c9d8e7f'')) =
     repayments listed_negative \<and>
   int (length (repayments
         (final (invest decimal_lib (fixed_day 739252) listed_negative ''e5f6a7b8'' ''0c9d8e7f'')))) -
   int (length (repayments listed_negative)) \<noteq> - 3"
proof -
  have a: "Printed Investment_successful
     \<in> set (trace (invest decimal_lib (fixed_day 739252) listed_negative ''e5f6a7b8'' ''0c9d8e7f''))"
    by code_simp
  have b: "find (\<lambda>l. loan_id l = ''0c9d8e7f'' \<and> status l = ''open'') (loans listed_negative) =
     Some (loan_of ''0c9d8e7f'' ''1000.0'' ''-3'' ''open'')"
    by (simp add: listed_negative_def loan_of_def)
  have c: "int_of decimal_lib (duration (loan_of ''0c9d8e7f'' ''1000.0'' ''-3'' ''open'')) = Some (- 3)"
    by code_simp
  have d: "loans (final (invest decimal_lib (fixed_day 739252) listed_negative ''e5f6a7b8'' ''0c9d8e7f'')) =
     [loan_of ''0c9d8e7f'' ''1000.0'' ''-3'' ''funded'']"
    by code_simp
  have e: "repayments (final (invest decimal_lib (fixed_day 739252) listed_negative ''e5f6a7b8'' ''0c9d8e7f'')) =
     repayments listed_negative"
    by code_simp
  have f: "int (length (repayments
         (final (invest decimal_lib (fixed_day 739252) listed_negative ''e5f6a7b8'' ''0c9d8e7f'')))) -
     int (length (repayments listed_negative)) \<noteq> - 3"
    by (simp add: e)
  show ?thesis by (intro conjI) (rule a b c d e f)+
qed

text \<open>
  Claim C2, as amended. Take an open loan, at position \<open>m\<close> of the table, a valid investor
  and a successful \<^verbatim>\<open>invest\<close> on the identifier of the loan. The call creates the schedule
  of the first open loan of the table with this identifier, at position \<open>k\<close>, which is the
  loan \<open>m\<close> itself when no earlier open loan shares its identifier, so whenever the
  identifiers are distinct: one installment for each \<open>i\<close> from 0 to the duration of loan
  \<open>k\<close> minus 1 (as many as the duration when it is positive, none when it is negative),
  with due date the day that the clock shows when the installment is created plus
  \<open>30 * (i + 1)\<close> days and \<^verbatim>\<open>paid\<close> false. It appends them in this order to the repayments
  table, one append each, sets the status of every loan with the identifier, loan \<open>m\<close>
  among them, to funded and then rewrites the loan table once.
\<close>

theorem invest_appends_schedule_and_funds:
  assumes "Printed Investment_successful \<in> set (trace (invest L today st investor lid))"
    and "m < length (loans st)"
    and "loan_id (loans st ! m) = lid"
    and "status (loans st ! m) = ''open''"
  shows "\<exists>k d rows.
     has_role (users st) investor ''investor'' \<and>
     k \<le> m \<and> loan_id (loans st ! k) = lid \<and> status (loans st ! k) = ''open'' \<and>
     (\<forall>j < k. \<not> (loan_id (loans st ! j) = lid \<and> status (loans st ! j) = ''open'')) \<and>
     (distinct (map loan_id (loans st)) \<longrightarrow> k = m) \<and>
     int_of L (duration (loans st ! k)) = Some d \<and>
     raised (invest L today st investor lid) = None \<and>
     users (final (invest L today st investor lid)) = users st \<and>
     repayments (final (invest L today st investor lid)) = repayments st @ rows \<and>
     length rows = nat d \<and>
     (\<forall>i < nat d. for_loan (rows ! i) = lid \<and> investor_id (rows ! i) = investor \<and>
        due_date (rows ! i) = strftime L (today i + 30 * (int i + 1)) \<and>
        paid (rows ! i) = ''False'') \<and>
     writes (trace (invest L today st investor lid)) =
       replicate (nat d) (Appended Repayments) @ [Rewrote Loans] \<and>
     loans (final (invest L today st investor lid)) =
       map (\<lambda>x. if loan_id x = lid then x\<lparr>status := ''funded''\<rparr> else x) (loans st) \<and>
     loans (final (invest L today st investor lid)) ! m = (loans st ! m)\<lparr>status := ''funded''\<rparr>"
proof -
  from invest_success [OF assms(1)] obtain l mp d where
    r: "has_role (users st) investor ''investor''" and
    f: "find (\<lambda>l. loan_id l = lid \<and> status l = ''open'') (loans st) = Some l" and
    mp: "monthly_payment_for L l = Inr (mp, d)" and
    i: "invest L today st investor lid =
       returns (st\<lparr>repayments := repayments st @ map (installment L today lid investor mp) [0..<nat d],
                   loans := mark_funded lid (loans st)\<rparr>)
               (view_loans st @ map (\<lambda>r. Appended Repayments) (map (installment L today lid investor mp) [0..<nat d]) @
                [Rewrote Loans, Printed Investment_successful])"
    by blast
  from find_first [OF f] obtain k where
    k: "k < length (loans st)" "loans st ! k = l"
       "loan_id (loans st ! k) = lid" "status (loans st ! k) = ''open''"
       "\<forall>j < k. \<not> (loan_id (loans st ! j) = lid \<and> status (loans st ! j) = ''open'')"
    by blast
  from monthly_payment_for_Inr [OF mp] k(2) have p: "int_of L (duration (loans st ! k)) = Some d"
    by blast
  have km: "k \<le> m"
  proof (rule ccontr)
    assume "\<not> k \<le> m"
    then have "m < k" by simp
    with k(5) assms(3,4) show False by blast
  qed
  have dist: "distinct (map loan_id (loans st)) \<longrightarrow> k = m"
  proof
    assume d: "distinct (map loan_id (loans st))"
    show "k = m"
    proof (rule ccontr)
      assume "k \<noteq> m"
      with d k(1) assms(2) have "loan_id (loans st ! k) \<noteq> loan_id (loans st ! m)"
        by (metis distinct_conv_nth length_map nth_map)
      with k(3) assms(3) show False by simp
    qed
  qed
  let ?rows = "map (installment L today lid investor mp) [0..<nat d]"
  have 1: "raised (invest L today st investor lid) = None"
    "users (final (invest L today st investor lid)) = users st"
    "repayments (final (invest L today st investor lid)) = repayments st @ ?rows"
    by (simp_all add: i returns_def)
  have 2: "length ?rows = nat d" by simp
  have 3: "\<forall>i < nat d. for_loan (?rows ! i) = lid \<and> investor_id (?rows ! i) = investor \<and>
        due_date (?rows ! i) = strftime L (today i + 30 * (int i + 1)) \<and>
        paid (?rows ! i) = ''False''"
    by (simp add: installment_def)
  have 4: "writes (trace (invest L today st investor lid)) =
       replicate (nat d) (Appended Repayments) @ [Rewrote Loans]"
    by (simp add: i returns_def writes_append writes_view_loans writes_appended comp_def)
       (simp add: writes_def)
  have 5: "loans (final (invest L today st investor lid)) =
       map (\<lambda>x. if loan_id x = lid then x\<lparr>status := ''funded''\<rparr> else x) (loans st)"
    by (simp add: i returns_def mark_funded_def)
  have 6: "loans (final (invest L today st investor lid)) ! m = (loans st ! m)\<lparr>status := ''funded''\<rparr>"
    unfolding 5 using assms(2,3) by simp
  from r km k(3,4,5) dist p 1 2 3 4 5 6 show ?thesis by blast
qed

text \<open>The scenario of the specification: Bob funds the loan of 1000 at 10 percent over 2
  months on 2025-01-01.\<close>

theorem invest_appends_schedule_and_funds_witness:
  "Printed Investment_successful
     \<in> set (trace (invest decimal_lib (fixed_day 739252) listed ''e5f6a7b8'' ''0c9d8e7f'')) \<and>
   0 < length (loans listed) \<and>
   loan_id (loans listed ! 0) = ''0c9d8e7f'' \<and>
   status (loans listed ! 0) = ''open'' \<and>
   (\<exists>k d rows.
     has_role (users listed) ''e5f6a7b8'' ''investor'' \<and>
     k \<le> 0 \<and> loan_id (loans listed ! k) = ''0c9d8e7f'' \<and> status (loans listed ! k) = ''open'' \<and>
     (\<forall>j < k. \<not> (loan_id (loans listed ! j) = ''0c9d8e7f'' \<and>
                  status (loans listed ! j) = ''open'')) \<and>
     (distinct (map loan_id (loans listed)) \<longrightarrow> k = 0) \<and>
     int_of decimal_lib (duration (loans listed ! k)) = Some d \<and>
     raised (invest decimal_lib (fixed_day 739252) listed ''e5f6a7b8'' ''0c9d8e7f'') = None \<and>
     users (final (invest decimal_lib (fixed_day 739252) listed ''e5f6a7b8'' ''0c9d8e7f'')) =
       users listed \<and>
     repayments (final (invest decimal_lib (fixed_day 739252) listed ''e5f6a7b8'' ''0c9d8e7f'')) =
       repayments listed @ rows \<and>
     length rows = nat d \<and>
     (\<forall>i < nat d. for_loan (rows ! i) = ''0c9d8e7f'' \<and> investor_id (rows ! i) = ''e5f6a7b8'' \<and>
        due_date (rows ! i) = strftime decimal_lib (fixed_day 739252 i + 30 * (int i + 1)) \<and>
        paid (rows ! i) = ''False'') \<and>
     writes (trace (invest decimal_lib (fixed_day 739252) listed ''e5f6a7b8'' ''0c9d8e7f'')) =
       replicate (nat d) (Appended Repayments) @ [Rewrote Loans] \<and>
     loans (final (invest decimal_lib (fixed_day 739252) listed ''e5f6a7b8'' ''0c9d8e7f'')) =
       map (\<lambda>x. if loan_id x = ''0c9d8e7f'' then x\<lparr>status := ''funded''\<rparr> else x) (loans listed) \<and>
     loans (final (invest decimal_lib (fixed_day 739252) listed ''e5f6a7b8'' ''0c9d8e7f'')) ! 0 =
       (loans listed ! 0)\<lparr>status := ''funded''\<rparr>)"
proof -
  have h: "Printed Investment_successful
     \<in> set (trace (invest decimal_lib (fixed_day 739252) listed ''e5f6a7b8'' ''0c9d8e7f''))"
    by code_simp
  have m: "0 < length (loans listed)"
    by (simp add: listed_def)
  have lid: "loan_id (loans listed ! 0) = ''0c9d8e7f''"
    by (simp add: listed_def loan_of_def)
  have op: "status (loans listed ! 0) = ''open''"
    by (simp add: listed_def loan_of_def)
  note c = invest_appends_schedule_and_funds [OF h m lid op]
  show ?thesis by (intro conjI) (rule h m lid op c)+
qed

text \<open>
  As first stated the claim has exactly duration installments created; a loan listed
  with duration -1 is funded, by a valid investor, and the repayments table stays empty.
\<close>

theorem invest_duration_minus_one_counterexample:
  "has_role (users listed_minus_one) ''e5f6a7b8'' ''investor'' \<and>
   find (\<lambda>l. loan_id l = ''0c9d8e7f'' \<and> status l = ''open'') (loans listed_minus_one) =
     Some (loan_of ''0c9d8e7f'' ''1000.0'' ''-1'' ''open'') \<and>
   int_of decimal_lib ''-1'' = Some (- 1) \<and>
   trace (invest decimal_lib (fixed_day 739252) listed_minus_one ''e5f6a7b8'' ''0c9d8e7f'') =
     [Printed Open_loans_header, Printed (Open_loan ''0c9d8e7f'' ''1000.0'' ''10.0'' ''-1''),
      Rewrote Loans, Printed Investment_successful] \<and>
   final (invest decimal_lib (fixed_day 739252) listed_minus_one ''e5f6a7b8'' ''0c9d8e7f'') =
     \<lparr>users = [alice, bob], loans = [loan_of ''0c9d8e7f'' ''1000.0'' ''-1'' ''funded''],
      repayments = []\<rparr> \<and>
   int (length (repayments
      (final (invest decimal_lib (fixed_day 739252) listed_minus_one ''e5f6a7b8'' ''0c9d8e7f'')))) \<noteq> - 1"
proof -
  have a: "has_role (users listed_minus_one) ''e5f6a7b8'' ''investor''"
    by code_simp
  have b: "find (\<lambda>l. loan_id l = ''0c9d8e7f'' \<and> status l = ''open'') (loans listed_minus_one) =
     Some (loan_of ''0c9d8e7f'' ''1000.0'' ''-1'' ''open'')"
    by (simp add: listed_minus_one_def loan_of_def)
  have c: "int_of decimal_lib ''-1'' = Some (- 1)"
    by code_simp
  have d: "trace (invest decimal_lib (fixed_day 739252) listed_minus_one ''e5f6a7b8'' ''0c9d8e7f'') =
     [Printed Open_loans_header, Printed (Open_loan ''0c9d8e7f'' ''1000.0'' ''10.0'' ''-1''),
      Rewrote Loans, Printed Investment_successful]"
    by code_simp
  have e: "final (invest decimal_lib (fixed_day 739252) listed_minus_one ''e5f6a7b8'' ''0c9d8e7f'') =
     \<lparr>users = [alice, bob], loans = [loan_of ''0c9d8e7f'' ''1000.0'' ''-1'' ''funded''],
      repayments = []\<rparr>"
    by code_simp
  have f: "int (length (repayments
      (final (invest decimal_lib (fixed_day 739252) listed_minus_one ''e5f6a7b8'' ''0c9d8e7f'')))) \<noteq> - 1"
    by (simp add: e)
  show ?thesis by (intro conjI) (rule a b c d e f)+
qed

text \<open>The due dates follow the clock of each iteration: when midnight passes between the
  two installments of the scenario, the second is due 61 days after the day of the
  first reading, not 60; and when two open loans share an identifier, the schedule is
  that of the first, two installments of 550, whichever of the two was meant.\<close>

lemma invest_across_midnight:
  "repayments (final (invest decimal_lib (midnight_after 1 739252) listed
                        ''e5f6a7b8'' ''0c9d8e7f'')) =
     [installment_of ''2025-01-31'' ''False'', installment_of ''2025-03-03'' ''False'']"
  by code_simp

lemma invest_shared_identifier_schedule:
  "repayments (final (invest decimal_lib (fixed_day 739252) listed_twice
                        ''e5f6a7b8'' ''0c9d8e7f'')) =
     [installment_of ''2025-01-31'' ''False'', installment_of ''2025-03-02'' ''False'']"
  by code_simp

text \<open>
  Claim C5. \<^verbatim>\<open>invest\<close> asks for the loan identifier at line 95, once the check of the
  investor has passed. For every identifier typed there that does not identify a loan
  with status open (an already funded loan included), it prints the invalid-loan message
  after the list of open loans, raises nothing and leaves all state unchanged: no
  installment row is appended and the loan table is not rewritten.
\<close>

theorem invest_rejects_loan_that_is_not_open:
  assumes "has_role (users st) investor ''investor''"
    and "\<not> list_ex (\<lambda>l. loan_id l = lid \<and> status l = ''open'') (loans st)"
  shows "final (invest L today st investor lid) = st \<and>
     raised (invest L today st investor lid) = None \<and>
     writes (trace (invest L today st investor lid)) = [] \<and>
     trace (invest L today st investor lid) = view_loans st @ [Printed Invalid_loan]"
proof -
  from assms(2) have "find (\<lambda>l. loan_id l = lid \<and> status l = ''open'') (loans st) = None"
    by (simp add: find_None_iff list_ex_iff)
  with assms(1) show ?thesis
    by (simp add: invest_def returns_def writes_append writes_view_loans)
       (simp add: writes_def)
qed

text \<open>The scenario of the specification: Bob tries to fund the loan he has funded.\<close>

theorem invest_rejects_loan_that_is_not_open_witness:
  "has_role (users funded) ''e5f6a7b8'' ''investor'' \<and>
   \<not> list_ex (\<lambda>l. loan_id l = ''0c9d8e7f'' \<and> status l = ''open'') (loans funded) \<and>
   final (invest decimal_lib (fixed_day 739260) funded ''e5f6a7b8'' ''0c9d8e7f'') = funded \<and>
   raised (invest decimal_lib (fixed_day 739260) funded ''e5f6a7b8'' ''0c9d8e7f'') = None \<and>
   writes (trace (invest decimal_lib (fixed_day 739260) funded ''e5f6a7b8'' ''0c9d8e7f'')) = [] \<and>
   trace (invest decimal_lib (fixed_day 739260) funded ''e5f6a7b8'' ''0c9d8e7f'') =
     [Printed No_open_loans, Printed Invalid_loan]"
proof -
  have r: "has_role (users funded) ''e5f6a7b8'' ''investor''"
    by code_simp
  have h: "\<not> list_ex (\<lambda>l. loan_id l = ''0c9d8e7f'' \<and> status l = ''open'') (loans funded)"
    by code_simp
  have v: "view_loans funded = [Printed No_open_loans]"
    by code_simp
  note t = invest_rejects_loan_that_is_not_open [OF r h, of decimal_lib "fixed_day 739260"]
  from t have 1: "final (invest decimal_lib (fixed_day 739260) funded ''e5f6a7b8'' ''0c9d8e7f'') = funded"
    and 2: "raised (invest decimal_lib (fixed_day 739260) funded ''e5f6a7b8'' ''0c9d8e7f'') = None"
    and 3: "writes (trace (invest decimal_lib (fixed_day 739260) funded ''e5f6a7b8'' ''0c9d8e7f'')) = []"
    by blast+
  from t v have 4: "trace (invest decimal_lib (fixed_day 739260) funded ''e5f6a7b8'' ''0c9d8e7f'') =
     [Printed No_open_loans, Printed Invalid_loan]"
    by simp
  show ?thesis by (intro conjI) (rule r h 1 2 3 4)+
qed

text \<open>
  Claim C10, as amended. When \<^verbatim>\<open>invest\<close> succeeds for the loan identifier \<open>lid\<close>, the
  rewritten loan table has the same length and order as before; every loan whose
  identifier is not \<open>lid\<close> is unchanged field for field, and every loan whose identifier
  is \<open>lid\<close>, the funded loan and any other row that shares its identifier, differs at most
  in its status, which is funded. When the identifiers of the table are distinct, every
  loan other than the funded one is unchanged.
\<close>

theorem invest_changes_only_status:
  assumes "Printed Investment_successful \<in> set (trace (invest L today st investor lid))"
  shows "length (loans (final (invest L today st investor lid))) = length (loans st) \<and>
     (\<forall>i < length (loans st).
        loans (final (invest L today st investor lid)) ! i =
          (if loan_id (loans st ! i) = lid then (loans st ! i)\<lparr>status := ''funded''\<rparr>
           else loans st ! i)) \<and>
     (\<exists>k < length (loans st).
        find (\<lambda>l. loan_id l = lid \<and> status l = ''open'') (loans st) = Some (loans st ! k) \<and>
        (distinct (map loan_id (loans st)) \<longrightarrow>
           (\<forall>i < length (loans st). i \<noteq> k \<longrightarrow>
              loans (final (invest L today st investor lid)) ! i = loans st ! i)))"
proof -
  from invest_success [OF assms] obtain l mp d where
    f: "find (\<lambda>l. loan_id l = lid \<and> status l = ''open'') (loans st) = Some l" and
    i: "invest L today st investor lid =
       returns (st\<lparr>repayments := repayments st @ map (installment L today lid investor mp) [0..<nat d],
                   loans := mark_funded lid (loans st)\<rparr>)
               (view_loans st @ map (\<lambda>r. Appended Repayments) (map (installment L today lid investor mp) [0..<nat d]) @
                [Rewrote Loans, Printed Investment_successful])"
    by blast
  have ls: "loans (final (invest L today st investor lid)) = mark_funded lid (loans st)"
    by (simp add: i returns_def)
  have 1: "length (loans (final (invest L today st investor lid))) = length (loans st)"
    by (simp add: ls mark_funded_def)
  have 2: "\<forall>i < length (loans st).
        loans (final (invest L today st investor lid)) ! i =
          (if loan_id (loans st ! i) = lid then (loans st ! i)\<lparr>status := ''funded''\<rparr>
           else loans st ! i)"
    by (simp add: ls mark_funded_def)
  from f obtain k where k: "k < length (loans st)" "loans st ! k = l" "loan_id l = lid"
    by (auto simp: find_Some_iff)
  have 3: "distinct (map loan_id (loans st)) \<longrightarrow>
           (\<forall>i < length (loans st). i \<noteq> k \<longrightarrow>
              loans (final (invest L today st investor lid)) ! i = loans st ! i)"
  proof (intro impI allI)
    fix i assume d: "distinct (map loan_id (loans st))" and i: "i < length (loans st)" "i \<noteq> k"
    from d i k(1) have "loan_id (loans st ! i) \<noteq> loan_id (loans st ! k)"
      by (metis distinct_conv_nth length_map nth_map)
    with k have "loan_id (loans st ! i) \<noteq> lid" by simp
    with 2 i show "loans (final (invest L today st investor lid)) ! i = loans st ! i" by simp
  qed
  from f k have "find (\<lambda>l. loan_id l = lid \<and> status l = ''open'') (loans st) = Some (loans st ! k)"
    by simp
  with 1 2 3 k(1) show ?thesis by blast
qed

theorem invest_changes_only_status_witness:
  "Printed Investment_successful
     \<in> set (trace (invest decimal_lib (fixed_day 739252) listed ''e5f6a7b8'' ''0c9d8e7f'')) \<and>
   length (loans (final (invest decimal_lib (fixed_day 739252) listed ''e5f6a7b8'' ''0c9d8e7f''))) =
     length (loans listed) \<and>
   loans (final (invest decimal_lib (fixed_day 739252) listed ''e5f6a7b8'' ''0c9d8e7f'')) ! 0 =
     (loans listed ! 0)\<lparr>status := ''funded''\<rparr>"
proof -
  have h: "Printed Investment_successful
     \<in> set (trace (invest decimal_lib (fixed_day 739252) listed ''e5f6a7b8'' ''0c9d8e7f''))"
    by code_simp
  from invest_changes_only_status [OF h] have
    1: "length (loans (final (invest decimal_lib (fixed_day 739252) listed ''e5f6a7b8'' ''0c9d8e7f''))) =
          length (loans listed)" and
    2: "\<forall>i < length (loans listed).
          loans (final (invest decimal_lib (fixed_day 739252) listed ''e5f6a7b8'' ''0c9d8e7f'')) ! i =
            (if loan_id (loans listed ! i) = ''0c9d8e7f''
             then (loans listed ! i)\<lparr>status := ''funded''\<rparr> else loans listed ! i)"
    by blast+
  have n: "0 < length (loans listed)" "loan_id (loans listed ! 0) = ''0c9d8e7f''"
    by (simp_all add: listed_def loan_of_def)
  from 2 n have 3: "loans (final (invest decimal_lib (fixed_day 739252) listed ''e5f6a7b8'' ''0c9d8e7f'')) ! 0 =
     (loans listed ! 0)\<lparr>status := ''funded''\<rparr>"
    by simp
  show ?thesis by (intro conjI) (rule h 1 3)+
qed

text \<open>
  As first stated the claim leaves every loan other than the funded one unchanged.
  \<^verbatim>\<open>generate_id\<close> does not check its token against the table, and lines 112 to 114 mark
  every row with the identifier: in a table where two open loans share one, funding the
  first also changes the status of the second.
\<close>

theorem invest_shared_identifier_counterexample:
  "Printed Investment_successful
     \<in> set (trace (invest decimal_lib (fixed_day 739252) listed_twice ''e5f6a7b8'' ''0c9d8e7f'')) \<and>
   find (\<lambda>l. loan_id l = ''0c9d8e7f'' \<and> status l = ''open'') (loans listed_twice) =
     Some (loans listed_twice ! 0) \<and>
   length (repayments (final (invest decimal_lib (fixed_day 739252) listed_twice ''e5f6a7b8'' ''0c9d8e7f'')))
     = 2 \<and>
   loans listed_twice ! 1 = loan_of ''0c9d8e7f'' ''500.0'' ''1'' ''open'' \<and>
   loans (final (invest decimal_lib (fixed_day 739252) listed_twice ''e5f6a7b8'' ''0c9d8e7f'')) ! 1 =
     loan_of ''0c9d8e7f'' ''500.0'' ''1'' ''funded'' \<and>
   loans (final (invest decimal_lib (fixed_day 739252) listed_twice ''e5f6a7b8'' ''0c9d8e7f'')) ! 1 \<noteq>
     loans listed_twice ! 1"
proof -
  have a: "Printed Investment_successful
     \<in> set (trace (invest decimal_lib (fixed_day 739252) listed_twice ''e5f6a7b8'' ''0c9d8e7f''))"
    by code_simp
  have b: "find (\<lambda>l. loan_id l = ''0c9d8e7f'' \<and> status l = ''open'') (loans listed_twice) =
     Some (loans listed_twice ! 0)"
    by (simp add: listed_twice_def loan_of_def)
  have c: "length (repayments
       (final (invest decimal_lib (fixed_day 739252) listed_twice ''e5f6a7b8'' ''0c9d8e7f''))) = 2"
    by code_simp
  have d: "loans listed_twice ! 1 = loan_of ''0c9d8e7f'' ''500.0'' ''1'' ''open''"
    by (simp add: listed_twice_def)
  have e: "loans (final (invest decimal_lib (fixed_day 739252) listed_twice ''e5f6a7b8'' ''0c9d8e7f'')) ! 1 =
     loan_of ''0c9d8e7f'' ''500.0'' ''1'' ''funded''"
    by code_simp
  have f: "loans (final (invest decimal_lib (fixed_day 739252) listed_twice ''e5f6a7b8'' ''0c9d8e7f'')) ! 1 \<noteq>
     loans listed_twice ! 1"
    unfolding d e by (simp add: loan_of_def)
  show ?thesis by (intro conjI) (rule a b c d e f)+
qed

section \<open>The claims about process_repayments\<close>

lemma settle_eq_iff: "settle t r = r \<longleftrightarrow> \<not> is_due t r"
proof
  assume "settle t r = r"
  then have "paid (settle t r) = paid r" by simp
  then show "\<not> is_due t r" by (auto simp: settle_def is_due_def split: if_splits)
next
  assume "\<not> is_due t r" then show "settle t r = r" by (simp add: settle_def)
qed

lemma map_settle_eq_iff: "map (settle t) rs = rs \<longleftrightarrow> filter (is_due t) rs = []"
  by (induction rs) (auto simp: settle_eq_iff)

lemma filter_due_settled: "filter (is_due t) (map (settle t) rs) = []"
  by (induction rs) (auto simp: settle_def is_due_def)

lemma process_repayments_final:
  "repayments (final (process_repayments L clock st)) =
     map (settle (strftime L clock)) (repayments st)"
  by (simp add: process_repayments_def returns_def Let_def map_settle_eq_iff [symmetric])

text \<open>
  Claim C3. For every repayments table and every processing date, \<^verbatim>\<open>process_repayments\<close>
  marks paid exactly the installments whose due date is at most the processing date and
  whose paid flag is false, leaves every other installment (and the other two tables)
  unchanged, and rewrites the repayments file if and only if at least one installment
  changed; otherwise it prints that none is due and writes nothing. The dates are
  compared as the code compares them, as strings.
\<close>

theorem process_repayments_marks_due:
  "raised (process_repayments L clock st) = None \<and>
   users (final (process_repayments L clock st)) = users st \<and>
   loans (final (process_repayments L clock st)) = loans st \<and>
   repayments (final (process_repayments L clock st)) =
     map (\<lambda>r. if due_date r \<le> strftime L clock \<and> paid r = ''False''
              then r\<lparr>paid := ''True''\<rparr> else r) (repayments st) \<and>
   (Rewrote Repayments \<in> set (trace (process_repayments L clock st)) \<longleftrightarrow>
      repayments (final (process_repayments L clock st)) \<noteq> repayments st) \<and>
   writes (trace (process_repayments L clock st)) =
     (if repayments (final (process_repayments L clock st)) = repayments st then []
      else [Rewrote Repayments]) \<and>
   (repayments (final (process_repayments L clock st)) = repayments st \<longrightarrow>
      trace (process_repayments L clock st) = [Printed No_repayments_due] \<and>
      final (process_repayments L clock st) = st)"
proof -
  let ?t = "strftime L clock"
  have m: "map (\<lambda>r. if due_date r \<le> ?t \<and> paid r = ''False'' then r\<lparr>paid := ''True''\<rparr> else r)
             (repayments st) = map (settle ?t) (repayments st)"
    by (simp add: settle_def is_due_def)
  show ?thesis
  proof (cases "filter (is_due ?t) (repayments st) = []")
    case True
    then have "map (settle ?t) (repayments st) = repayments st"
      by (simp add: map_settle_eq_iff)
    with True m show ?thesis
      by (simp add: process_repayments_def returns_def Let_def writes_def)
  next
    case False
    then have "map (settle ?t) (repayments st) \<noteq> repayments st"
      by (simp add: map_settle_eq_iff)
    with False m show ?thesis
      by (simp add: process_repayments_def returns_def Let_def writes_def)
  qed
qed

text \<open>The scenario of the specification, 61 days after the funding (2025-03-03): both
  installments are marked and the file is rewritten. The day after the funding nothing
  is due and nothing is written.\<close>

theorem process_repayments_marks_due_witness:
  "repayments (final (process_repayments decimal_lib 739313 funded)) =
     [installment_of ''2025-01-31'' ''True'', installment_of ''2025-03-02'' ''True''] \<and>
   Rewrote Repayments \<in> set (trace (process_repayments decimal_lib 739313 funded)) \<and>
   repayments (final (process_repayments decimal_lib 739253 funded)) = repayments funded \<and>
   trace (process_repayments decimal_lib 739253 funded) = [Printed No_repayments_due] \<and>
   final (process_repayments decimal_lib 739253 funded) = funded"
proof -
  have late: "map (\<lambda>r. if due_date r \<le> strftime decimal_lib 739313 \<and> paid r = ''False''
                       then r\<lparr>paid := ''True''\<rparr> else r) (repayments funded) =
     [installment_of ''2025-01-31'' ''True'', installment_of ''2025-03-02'' ''True'']"
    by code_simp
  have changed: "[installment_of ''2025-01-31'' ''True'', installment_of ''2025-03-02'' ''True'']
     \<noteq> repayments funded"
    by (simp add: funded_def installment_of_def)
  have early: "map (\<lambda>r. if due_date r \<le> strftime decimal_lib 739253 \<and> paid r = ''False''
                        then r\<lparr>paid := ''True''\<rparr> else r) (repayments funded) =
     repayments funded"
    by code_simp
  from process_repayments_marks_due [of decimal_lib 739313 funded] late changed
  have 1: "repayments (final (process_repayments decimal_lib 739313 funded)) =
     [installment_of ''2025-01-31'' ''True'', installment_of ''2025-03-02'' ''True'']"
    and 2: "Rewrote Repayments \<in> set (trace (process_repayments decimal_lib 739313 funded))"
    by simp_all
  from process_repayments_marks_due [of decimal_lib 739253 funded] early
  have 3: "repayments (final (process_repayments decimal_lib 739253 funded)) = repayments funded"
    and 4: "trace (process_repayments decimal_lib 739253 funded) = [Printed No_repayments_due]"
    and 5: "final (process_repayments decimal_lib 739253 funded) = funded"
    by simp_all
  show ?thesis by (intro conjI) (rule 1 2 3 4 5)+
qed

text \<open>
  Claim C4. \<^verbatim>\<open>process_repayments\<close> is idempotent: for every repayments table and every
  date, running it twice with the same date leaves the store that running it once
  leaves; the second run marks nothing (it prints that none is due and writes nothing),
  and no run turns a paid installment back.
\<close>

theorem process_repayments_idempotent:
  "final (process_repayments L clock (final (process_repayments L clock st))) =
     final (process_repayments L clock st) \<and>
   trace (process_repayments L clock (final (process_repayments L clock st))) =
     [Printed No_repayments_due] \<and>
   (\<forall>i < length (repayments st). paid (repayments st ! i) = ''True'' \<longrightarrow>
      paid (repayments (final (process_repayments L clock st)) ! i) = ''True'')"
proof -
  let ?t = "strftime L clock"
  let ?st1 = "final (process_repayments L clock st)"
  have r1: "repayments ?st1 = map (settle ?t) (repayments st)"
    by (rule process_repayments_final)
  have nodue: "filter (is_due ?t) (repayments ?st1) = []"
    by (simp add: r1 filter_due_settled)
  have a: "process_repayments L clock ?st1 = returns ?st1 [Printed No_repayments_due]"
    using nodue by (simp add: process_repayments_def Let_def)
  have c: "\<forall>i < length (repayments st). paid (repayments st ! i) = ''True'' \<longrightarrow>
      paid (repayments ?st1 ! i) = ''True''"
    by (simp add: r1 settle_def)
  from a c show ?thesis by (simp add: returns_def)
qed

text \<open>With the first installment already paid, two runs on 2025-03-03 leave what one run
  leaves, and the paid installment stays paid.\<close>

theorem process_repayments_idempotent_witness:
  "final (process_repayments decimal_lib 739313
       (final (process_repayments decimal_lib 739313 first_paid))) =
     final (process_repayments decimal_lib 739313 first_paid) \<and>
   trace (process_repayments decimal_lib 739313
       (final (process_repayments decimal_lib 739313 first_paid))) =
     [Printed No_repayments_due] \<and>
   paid (repayments first_paid ! 0) = ''True'' \<and>
   paid (repayments (final (process_repayments decimal_lib 739313 first_paid)) ! 0) = ''True''"
proof -
  have p: "0 < length (repayments first_paid)" "paid (repayments first_paid ! 0) = ''True''"
    by (simp_all add: first_paid_def installment_of_def)
  from process_repayments_idempotent [of decimal_lib 739313 first_paid] p
  show ?thesis by blast
qed

section \<open>The claims about register_user and the dashboard\<close>

lemma users_run_command:
  "users (final (run_command L st c)) = users st \<or>
   (\<exists>n r i. c = Register n r i \<and> lower r \<in> {''borrower'', ''investor''} \<and>
      users (final (run_command L st c)) = users st @ [\<lparr>user_id = i, name = n, role = lower r\<rparr>])"
proof (cases c)
  case (Register n r i)
  then show ?thesis by (simp add: register_user_def returns_def Let_def)
next
  case (List_loan b a r d i)
  then show ?thesis
    by (simp add: list_loan_def returns_def raises_def split: option.splits)
next
  case View_loans
  then show ?thesis by (simp add: returns_def)
next
  case (Invest investor lid today)
  then show ?thesis
    by (simp add: invest_def returns_def raises_def
             split: option.splits sum.splits prod.splits)
next
  case (Process today)
  then show ?thesis by (simp add: process_repayments_def returns_def Let_def)
next
  case (Show_dashboard investor)
  then show ?thesis
    by (simp add: investor_dashboard_def returns_def raises_def split: sum.splits)
next
  case Exit_menu
  then show ?thesis by (simp add: returns_def)
next
  case (Other x)
  then show ?thesis by (simp add: returns_def)
qed

lemma roles_store_after:
  "list_all (\<lambda>u. role u = ''borrower'' \<or> role u = ''investor'') (users st) \<Longrightarrow>
   list_all (\<lambda>u. role u = ''borrower'' \<or> role u = ''investor'') (users (store_after L st cs))"
proof (induction cs arbitrary: st)
  case Nil
  then show ?case by simp
next
  case (Cons c cs)
  from users_run_command [of L st c] Cons.prems
  have "list_all (\<lambda>u. role u = ''borrower'' \<or> role u = ''investor'')
          (users (final (run_command L st c)))"
    by auto
  then show ?case by (simp add: Cons.IH)
qed

text \<open>
  Claim C8, amended. The role that \<^verbatim>\<open>register_user\<close> tests and stores is the entry in
  lower case. For every entry whose lower-case form is neither \<^verbatim>\<open>borrower\<close> nor
  \<^verbatim>\<open>investor\<close>, the operation prints the invalid-role message, performs no write and
  leaves the store as it was; for every other entry it appends one user whose role is the
  entry in lower case. So in every store that operations leave behind from the empty
  tables, every user's role is \<^verbatim>\<open>borrower\<close> or \<^verbatim>\<open>investor\<close>.
\<close>

theorem register_user_rejects_other_roles:
  "(lower role_in \<noteq> ''borrower'' \<and> lower role_in \<noteq> ''investor'' \<longrightarrow>
      final (register_user new_id st name_in role_in) = st \<and>
      trace (register_user new_id st name_in role_in) = [Printed Invalid_role] \<and>
      writes (trace (register_user new_id st name_in role_in)) = [] \<and>
      raised (register_user new_id st name_in role_in) = None) \<and>
   (lower role_in = ''borrower'' \<or> lower role_in = ''investor'' \<longrightarrow>
      final (register_user new_id st name_in role_in) =
        st\<lparr>users := users st @ [\<lparr>user_id = new_id, name = name_in, role = lower role_in\<rparr>]\<rparr> \<and>
      writes (trace (register_user new_id st name_in role_in)) = [Appended Users]) \<and>
   list_all (\<lambda>u. role u = ''borrower'' \<or> role u = ''investor'')
     (users (store_after L init_store cs))"
proof -
  have "list_all (\<lambda>u. role u = ''borrower'' \<or> role u = ''investor'')
          (users (store_after L init_store cs))"
    by (rule roles_store_after) (simp add: init_store_def)
  then show ?thesis
    by (simp add: register_user_def returns_def writes_def Let_def)
qed

text \<open>The role \<^verbatim>\<open>admin\<close> is refused; after the turns of the listing session, the users
  are Alice the borrower and Bob the investor.\<close>

theorem register_user_rejects_other_roles_witness:
  "lower ''admin'' \<noteq> ''borrower'' \<and> lower ''admin'' \<noteq> ''investor'' \<and>
   final (register_user ''0a1b2c3d'' listed ''Eve'' ''admin'') = listed \<and>
   trace (register_user ''0a1b2c3d'' listed ''Eve'' ''admin'') = [Printed Invalid_role] \<and>
   writes (trace (register_user ''0a1b2c3d'' listed ''Eve'' ''admin'')) = [] \<and>
   lower ''Investor'' = ''investor'' \<and>
   writes (trace (register_user ''0a1b2c3d'' listed ''Eve'' ''Investor'')) = [Appended Users] \<and>
   users (store_after decimal_lib init_store listing_session) = [alice, bob] \<and>
   list_all (\<lambda>u. role u = ''borrower'' \<or> role u = ''investor'') [alice, bob]"
proof -
  have a: "lower ''admin'' \<noteq> ''borrower''" by code_simp
  have b: "lower ''admin'' \<noteq> ''investor''" by code_simp
  have c: "lower ''Investor'' = ''investor''" by code_simp
  have d: "users (store_after decimal_lib init_store listing_session) = [alice, bob]"
    by code_simp
  from a b register_user_rejects_other_roles
             [of "''admin''" "''0a1b2c3d''" listed "''Eve''" decimal_lib listing_session]
  have 1: "final (register_user ''0a1b2c3d'' listed ''Eve'' ''admin'') = listed"
    and 2: "trace (register_user ''0a1b2c3d'' listed ''Eve'' ''admin'') = [Printed Invalid_role]"
    and 3: "writes (trace (register_user ''0a1b2c3d'' listed ''Eve'' ''admin'')) = []"
    by (simp_all add: writes_def)
  from c register_user_rejects_other_roles
           [of "''Investor''" "''0a1b2c3d''" listed "''Eve''" decimal_lib listing_session]
  have 4: "writes (trace (register_user ''0a1b2c3d'' listed ''Eve'' ''Investor'')) =
             [Appended Users]"
    by simp
  from register_user_rejects_other_roles
         [of "''admin''" "''0a1b2c3d''" listed "''Eve''" decimal_lib listing_session]
  have 5: "list_all (\<lambda>u. role u = ''borrower'' \<or> role u = ''investor'') [alice, bob]"
    unfolding d by simp
  show ?thesis by (intro conjI) (rule a b c d 1 2 3 4 5)+
qed

text \<open>The claim as it was stated fails for an entry that is not one of the two role
  strings but lowers to one: \<^verbatim>\<open>Borrower\<close> is accepted, and Alice is written to the users
  file.\<close>

theorem register_user_capitalised_role_counterexample:
  "''Borrower'' \<noteq> ''borrower'' \<and> ''Borrower'' \<noteq> ''investor'' \<and>
   users (final (register_user ''a1b2c3d4'' init_store ''Alice'' ''Borrower'')) = [alice] \<and>
   users init_store = [] \<and>
   trace (register_user ''a1b2c3d4'' init_store ''Alice'' ''Borrower'') =
     [Appended Users, Printed (User_registered ''Alice'' ''a1b2c3d4'')]"
proof -
  have a: "''Borrower'' \<noteq> ''borrower''" by simp
  have b: "''Borrower'' \<noteq> ''investor''" by simp
  have c: "users (final (register_user ''a1b2c3d4'' init_store ''Alice'' ''Borrower'')) = [alice]"
    by code_simp
  have d: "users init_store = []" by (simp add: init_store_def)
  have e: "trace (register_user ''a1b2c3d4'' init_store ''Alice'' ''Borrower'') =
     [Appended Users, Printed (User_registered ''Alice'' ''a1b2c3d4'')]"
    by code_simp
  show ?thesis by (intro conjI) (rule a b c d e)+
qed

lemma sum_floats_foldl:
  "sum_floats L acc ss =
     (case those (map (float_of L) ss) of
        None \<Rightarrow> Inl ValueError
      | Some xs \<Rightarrow> Inr (foldl (fadd L) acc xs))"
  by (induction ss arbitrary: acc) (auto split: option.splits)

lemma total_of_sum:
  "total_of L rs = (case sum_of_payments L rs of None \<Rightarrow> Inl ValueError | Some x \<Rightarrow> Inr x)"
  by (simp add: total_of_def sum_of_payments_def sum_floats_foldl comp_def split: option.splits)

text \<open>
  Claim C9. For every investor id and every repayments table, the summary that
  \<^verbatim>\<open>investor_dashboard\<close> computes has for expected total the sum of \<^verbatim>\<open>monthly_payment\<close>
  over the rows of the investor, for paid total the same sum over those of these rows
  whose paid flag is \<^verbatim>\<open>True\<close>, and for outstanding the expected total minus the paid
  total; the three are printed with two decimals. There is a summary exactly when the
  \<^verbatim>\<open>monthly_payment\<close> of every row of the investor is a number (otherwise \<^verbatim>\<open>float\<close>
  raises ValueError and nothing is printed).
\<close>

theorem investor_summary_outstanding:
  "investor_summary L data investor =
     (case sum_of_payments L (filter (\<lambda>r. investor_id r = investor) data) of
        None \<Rightarrow> Inl ValueError
      | Some e \<Rightarrow>
      (case sum_of_payments L
              (filter (\<lambda>r. investor_id r = investor \<and> paid r = ''True'') data) of
        None \<Rightarrow> Inl ValueError
      | Some p \<Rightarrow> Inr \<lparr>expected_total = e, paid_total = p, outstanding = fsub L e p\<rparr>)) \<and>
   (\<forall>s. investor_summary L data investor = Inr s \<longrightarrow>
      outstanding s = fsub L (expected_total s) (paid_total s) \<and>
      investor_dashboard L (st\<lparr>repayments := data\<rparr>) investor =
        returns (st\<lparr>repayments := data\<rparr>)
          [Printed (Dashboard (format2f L (expected_total s)) (format2f L (paid_total s))
                              (format2f L (fsub L (expected_total s) (paid_total s))))]) \<and>
   ((\<exists>s. investor_summary L data investor = Inr s) \<longleftrightarrow>
      list_all (\<lambda>r. investor_id r = investor \<longrightarrow> float_of L (monthly_payment r) \<noteq> None) data)"
proof -
  have 1: "investor_summary L data investor =
     (case sum_of_payments L (filter (\<lambda>r. investor_id r = investor) data) of
        None \<Rightarrow> Inl ValueError
      | Some e \<Rightarrow>
      (case sum_of_payments L
              (filter (\<lambda>r. investor_id r = investor \<and> paid r = ''True'') data) of
        None \<Rightarrow> Inl ValueError
      | Some p \<Rightarrow> Inr \<lparr>expected_total = e, paid_total = p, outstanding = fsub L e p\<rparr>))"
    by (simp add: investor_summary_def total_of_sum split: option.splits)
  have 2: "\<forall>s. investor_summary L data investor = Inr s \<longrightarrow>
      outstanding s = fsub L (expected_total s) (paid_total s) \<and>
      investor_dashboard L (st\<lparr>repayments := data\<rparr>) investor =
        returns (st\<lparr>repayments := data\<rparr>)
          [Printed (Dashboard (format2f L (expected_total s)) (format2f L (paid_total s))
                              (format2f L (fsub L (expected_total s) (paid_total s))))]"
    by (auto simp: investor_dashboard_def investor_summary_def split: sum.splits)
  have those_iff: "\<And>rs. (\<exists>xs. those (map (\<lambda>r. float_of L (monthly_payment r)) rs) = Some xs) \<longleftrightarrow>
      list_all (\<lambda>r. float_of L (monthly_payment r) \<noteq> None) rs"
  proof -
    fix rs show "(\<exists>xs. those (map (\<lambda>r. float_of L (monthly_payment r)) rs) = Some xs) \<longleftrightarrow>
      list_all (\<lambda>r. float_of L (monthly_payment r) \<noteq> None) rs"
      by (induction rs) (auto split: option.splits)
  qed
  have sum_iff: "\<And>rs. (\<exists>x. sum_of_payments L rs = Some x) \<longleftrightarrow>
      list_all (\<lambda>r. float_of L (monthly_payment r) \<noteq> None) rs"
    using those_iff by (auto simp: sum_of_payments_def)
  have 3: "(\<exists>s. investor_summary L data investor = Inr s) \<longleftrightarrow>
      list_all (\<lambda>r. investor_id r = investor \<longrightarrow> float_of L (monthly_payment r) \<noteq> None) data"
  proof
    assume "\<exists>s. investor_summary L data investor = Inr s"
    then have "\<exists>x. sum_of_payments L (filter (\<lambda>r. investor_id r = investor) data) = Some x"
      unfolding 1 by (auto split: option.splits)
    then have "list_all (\<lambda>r. float_of L (monthly_payment r) \<noteq> None)
                 (filter (\<lambda>r. investor_id r = investor) data)"
      by (simp only: sum_iff)
    then show "list_all (\<lambda>r. investor_id r = investor \<longrightarrow> float_of L (monthly_payment r) \<noteq> None) data"
      by (auto simp: list_all_iff)
  next
    assume a: "list_all (\<lambda>r. investor_id r = investor \<longrightarrow> float_of L (monthly_payment r) \<noteq> None) data"
    then have "list_all (\<lambda>r. float_of L (monthly_payment r) \<noteq> None)
                 (filter (\<lambda>r. investor_id r = investor) data)"
      by (auto simp: list_all_iff)
    then obtain e where e: "sum_of_payments L (filter (\<lambda>r. investor_id r = investor) data) = Some e"
      using sum_iff by blast
    from a have "list_all (\<lambda>r. float_of L (monthly_payment r) \<noteq> None)
                 (filter (\<lambda>r. investor_id r = investor \<and> paid r = ''True'') data)"
      by (auto simp: list_all_iff)
    then obtain p where
      p: "sum_of_payments L (filter (\<lambda>r. investor_id r = investor \<and> paid r = ''True'') data) = Some p"
      using sum_iff by blast
    show "\<exists>s. investor_summary L data investor = Inr s"
      unfolding 1 by (simp add: e p)
  qed
  from 1 2 3 show ?thesis by (intro conjI)
qed

text \<open>The scenario of the specification: once both installments are paid, Bob's summary
  is 1100, 1100 and 0, printed as 1100.00, 1100.00 and 0.00; with only the first paid it
  is 1100, 550 and 550.\<close>

theorem investor_summary_outstanding_witness:
  "investor_summary decimal_lib (repayments both_paid) ''e5f6a7b8'' =
     Inr \<lparr>expected_total = 1100, paid_total = 1100, outstanding = 0\<rparr> \<and>
   investor_dashboard decimal_lib both_paid ''e5f6a7b8'' =
     returns both_paid [Printed (Dashboard ''1100.00'' ''1100.00'' ''0.00'')] \<and>
   investor_summary decimal_lib (repayments first_paid) ''e5f6a7b8'' =
     Inr \<lparr>expected_total = 1100, paid_total = 550, outstanding = 550\<rparr> \<and>
   list_all (\<lambda>r. float_of decimal_lib (monthly_payment r) \<noteq> None) (repayments both_paid)"
proof -
  let ?s = "\<lparr>expected_total = 1100 :: rat, paid_total = 1100, outstanding = 0\<rparr>"
  have e: "sum_of_payments decimal_lib
             (filter (\<lambda>r. investor_id r = ''e5f6a7b8'') (repayments both_paid)) = Some 1100"
    by code_simp
  have p: "sum_of_payments decimal_lib
             (filter (\<lambda>r. investor_id r = ''e5f6a7b8'' \<and> paid r = ''True'') (repayments both_paid)) =
           Some 1100"
    by code_simp
  have e': "sum_of_payments decimal_lib
             (filter (\<lambda>r. investor_id r = ''e5f6a7b8'') (repayments first_paid)) = Some 1100"
    by code_simp
  have p': "sum_of_payments decimal_lib
             (filter (\<lambda>r. investor_id r = ''e5f6a7b8'' \<and> paid r = ''True'') (repayments first_paid)) =
           Some 550"
    by code_simp
  have sub: "fsub decimal_lib 1100 1100 = 0" "fsub decimal_lib 1100 550 = 550"
    by (simp_all add: decimal_lib_def)
  have f: "format2f decimal_lib 1100 = ''1100.00''" "format2f decimal_lib 0 = ''0.00''"
    by code_simp+
  have st: "both_paid\<lparr>repayments := repayments both_paid\<rparr> = both_paid" by simp
  note t = investor_summary_outstanding [of decimal_lib "repayments both_paid" "''e5f6a7b8''" both_paid]
  from t have 1: "investor_summary decimal_lib (repayments both_paid) ''e5f6a7b8'' = Inr ?s"
    by (simp add: e p sub)
  from t 1 have 2: "investor_dashboard decimal_lib both_paid ''e5f6a7b8'' =
     returns both_paid [Printed (Dashboard ''1100.00'' ''1100.00'' ''0.00'')]"
    by (simp add: st sub f)
  from investor_summary_outstanding [of decimal_lib "repayments first_paid" "''e5f6a7b8''" first_paid]
  have 3: "investor_summary decimal_lib (repayments first_paid) ''e5f6a7b8'' =
     Inr \<lparr>expected_total = 1100, paid_total = 550, outstanding = 550\<rparr>"
    by (simp add: e' p' sub)
  have 4: "list_all (\<lambda>r. float_of decimal_lib (monthly_payment r) \<noteq> None) (repayments both_paid)"
    by code_simp
  show ?thesis by (intro conjI) (rule 1 2 3 4)+
qed

section \<open>The claim about the status of a loan\<close>

lemma loans_run_command:
  "loans (final (run_command L st c)) = loans st \<or>
   (\<exists>b a r d i x y z. c = List_loan b a r d i \<and>
      loans (final (run_command L st c)) =
        loans st @ [\<lparr>loan_id = i, borrower_id = b, amount = x, interest_rate = y,
                     duration = z, status = ''open''\<rparr>]) \<or>
   (\<exists>investor lid today. c = Invest investor lid today \<and>
      Printed Investment_successful \<in> set (trace (run_command L st c)) \<and>
      loans (final (run_command L st c)) = mark_funded lid (loans st))"
proof (cases c)
  case (Register n r i)
  then show ?thesis by (simp add: register_user_def returns_def Let_def)
next
  case (List_loan b a r d i)
  then show ?thesis
    by (simp add: list_loan_def returns_def raises_def split: option.splits)
next
  case View_loans
  then show ?thesis by (simp add: returns_def)
next
  case (Invest investor lid today)
  then show ?thesis
    by (simp add: invest_def returns_def raises_def
             split: option.splits sum.splits prod.splits)
next
  case (Process today)
  then show ?thesis by (simp add: process_repayments_def returns_def Let_def)
next
  case (Show_dashboard investor)
  then show ?thesis
    by (simp add: investor_dashboard_def returns_def raises_def split: sum.splits)
next
  case Exit_menu
  then show ?thesis by (simp add: returns_def)
next
  case (Other x)
  then show ?thesis by (simp add: returns_def)
qed

lemma mark_funded_nth:
  "i < length ls \<Longrightarrow> status (ls ! i) = ''open'' \<or> status (ls ! i) = ''funded'' \<Longrightarrow>
   mark_funded lid ls ! i = ls ! i \<or>
   (status (ls ! i) = ''open'' \<and> mark_funded lid ls ! i = (ls ! i)\<lparr>status := ''funded''\<rparr>)"
  by (cases "ls ! i") (auto simp: mark_funded_def)

lemma mark_funded_statuses:
  "list_all (\<lambda>l. status l = ''open'' \<or> status l = ''funded'') ls \<Longrightarrow>
   list_all (\<lambda>l. status l = ''open'' \<or> status l = ''funded'') (mark_funded lid ls)"
  by (auto simp: mark_funded_def list_all_iff)

lemma loans_step:
  assumes inv: "list_all (\<lambda>l. status l = ''open'' \<or> status l = ''funded'') (loans st)"
  shows "list_all (\<lambda>l. status l = ''open'' \<or> status l = ''funded'')
           (loans (final (run_command L st c)))"
    and "length (loans st) \<le> length (loans (final (run_command L st c)))"
    and "i < length (loans st) \<Longrightarrow>
         loans (final (run_command L st c)) ! i = loans st ! i \<or>
         (status (loans st ! i) = ''open'' \<and>
          loans (final (run_command L st c)) ! i = (loans st ! i)\<lparr>status := ''funded''\<rparr> \<and>
          Printed Investment_successful \<in> set (trace (run_command L st c)))"
    and "length (loans st) \<le> i \<Longrightarrow> i < length (loans (final (run_command L st c))) \<Longrightarrow>
         status (loans (final (run_command L st c)) ! i) = ''open''"
proof -
  let ?st' = "final (run_command L st c)"
  consider (same) "loans ?st' = loans st"
    | (new) l where "loans ?st' = loans st @ [l]" "status l = ''open''"
    | (funding) lid where "loans ?st' = mark_funded lid (loans st)"
        "Printed Investment_successful \<in> set (trace (run_command L st c))"
    using loans_run_command [of L st c] by fastforce
  note cases = this
  show "list_all (\<lambda>l. status l = ''open'' \<or> status l = ''funded'') (loans ?st')"
    using inv by (cases rule: cases) (simp_all add: mark_funded_statuses)
  show "length (loans st) \<le> length (loans ?st')"
    by (cases rule: cases) (simp_all add: mark_funded_def)
  show "loans ?st' ! i = loans st ! i \<or>
         (status (loans st ! i) = ''open'' \<and>
          loans ?st' ! i = (loans st ! i)\<lparr>status := ''funded''\<rparr> \<and>
          Printed Investment_successful \<in> set (trace (run_command L st c)))"
    if i: "i < length (loans st)"
  proof (cases rule: cases)
    case same
    then show ?thesis by simp
  next
    case (new l)
    with i show ?thesis by (simp add: nth_append)
  next
    case (funding lid)
    from inv i have "status (loans st ! i) = ''open'' \<or> status (loans st ! i) = ''funded''"
      by (simp add: list_all_length)
    from mark_funded_nth [OF i this, of lid] funding show ?thesis by auto
  qed
  show "status (loans ?st' ! i) = ''open''"
    if "length (loans st) \<le> i" "i < length (loans ?st')"
    using that by (cases rule: cases) (auto simp: mark_funded_def nth_append)
qed

lemma loans_steps:
  "list_all (\<lambda>l. status l = ''open'' \<or> status l = ''funded'') (loans st) \<Longrightarrow>
   list_all (\<lambda>l. status l = ''open'' \<or> status l = ''funded'') (loans (store_after L st cs)) \<and>
   length (loans st) \<le> length (loans (store_after L st cs)) \<and>
   (\<forall>i < length (loans st).
      loans (store_after L st cs) ! i = loans st ! i \<or>
      (status (loans st ! i) = ''open'' \<and>
       loans (store_after L st cs) ! i = (loans st ! i)\<lparr>status := ''funded''\<rparr>))"
proof (induction cs arbitrary: st)
  case Nil
  then show ?case by simp
next
  case (Cons c cs)
  let ?st1 = "final (run_command L st c)"
  let ?st2 = "store_after L ?st1 cs"
  note s = loans_step [OF Cons.prems, where L = L and c = c]
  note ih = Cons.IH [OF s(1)]
  have len: "length (loans st) \<le> length (loans ?st2)"
    using s(2) ih by simp
  have "loans ?st2 ! i = loans st ! i \<or>
      (status (loans st ! i) = ''open'' \<and> loans ?st2 ! i = (loans st ! i)\<lparr>status := ''funded''\<rparr>)"
    if i: "i < length (loans st)" for i
  proof -
    from i s(2) have i1: "i < length (loans ?st1)" by simp
    from s(3) [OF i] consider
        (kept) "loans ?st1 ! i = loans st ! i"
      | (funded) "status (loans st ! i) = ''open''"
          "loans ?st1 ! i = (loans st ! i)\<lparr>status := ''funded''\<rparr>"
      by blast
    then show ?thesis
    proof cases
      case kept
      with ih i1 show ?thesis by auto
    next
      case funded
      then have "status (loans ?st1 ! i) \<noteq> ''open''" by simp
      with ih i1 have "loans ?st2 ! i = loans ?st1 ! i" by blast
      with funded show ?thesis by simp
    qed
  qed
  with len ih show ?case by simp
qed

text \<open>
  Claim C7. In every store \<open>st\<close> that a sequence of operations leaves behind from the
  empty tables, the status of every loan is \<^verbatim>\<open>open\<close> or \<^verbatim>\<open>funded\<close>. Any operation \<open>c\<close>
  from there keeps the loans in place: a loan it adds has the status \<^verbatim>\<open>open\<close>, and a
  loan that was there is unchanged or was \<^verbatim>\<open>open\<close> and differs only in its status, now
  \<^verbatim>\<open>funded\<close>, in which case \<open>c\<close> is an investment that succeeded. Any further sequence
  \<open>cs'\<close> of operations does the same: no loan that was \<^verbatim>\<open>funded\<close> becomes anything else.
\<close>

theorem loan_status_open_then_funded:
  assumes "st = store_after L init_store cs"
    and "st' = final (run_command L st c)"
    and "st'' = store_after L st cs'"
  shows "list_all (\<lambda>l. status l = ''open'' \<or> status l = ''funded'') (loans st) \<and>
     length (loans st) \<le> length (loans st') \<and>
     (\<forall>i < length (loans st').
        if i < length (loans st)
        then loans st' ! i = loans st ! i \<or>
             (status (loans st ! i) = ''open'' \<and>
              loans st' ! i = (loans st ! i)\<lparr>status := ''funded''\<rparr> \<and>
              Printed Investment_successful \<in> set (trace (run_command L st c)))
        else status (loans st' ! i) = ''open'') \<and>
     length (loans st) \<le> length (loans st'') \<and>
     (\<forall>i < length (loans st).
        (loans st'' ! i = loans st ! i \<or>
         (status (loans st ! i) = ''open'' \<and>
          loans st'' ! i = (loans st ! i)\<lparr>status := ''funded''\<rparr>)) \<and>
        (status (loans st ! i) = ''funded'' \<longrightarrow> status (loans st'' ! i) = ''funded''))"
proof -
  have "list_all (\<lambda>l. status l = ''open'' \<or> status l = ''funded'') (loans init_store)"
    by (simp add: init_store_def)
  from loans_steps [OF this, of L cs] assms(1)
  have inv: "list_all (\<lambda>l. status l = ''open'' \<or> status l = ''funded'') (loans st)"
    by simp
  note s = loans_step [OF inv, where L = L and c = c, folded assms(2)]
  have one: "\<forall>i < length (loans st').
        if i < length (loans st)
        then loans st' ! i = loans st ! i \<or>
             (status (loans st ! i) = ''open'' \<and>
              loans st' ! i = (loans st ! i)\<lparr>status := ''funded''\<rparr> \<and>
              Printed Investment_successful \<in> set (trace (run_command L st c)))
        else status (loans st' ! i) = ''open''"
    using s(3) s(4) by (simp add: not_less)
  from loans_steps [OF inv, of L cs'] assms(3)
  have len: "length (loans st) \<le> length (loans st'')"
    and many: "\<forall>i < length (loans st).
        loans st'' ! i = loans st ! i \<or>
        (status (loans st ! i) = ''open'' \<and>
         loans st'' ! i = (loans st ! i)\<lparr>status := ''funded''\<rparr>)"
    by simp_all
  from many have many': "\<forall>i < length (loans st).
        (loans st'' ! i = loans st ! i \<or>
         (status (loans st ! i) = ''open'' \<and>
          loans st'' ! i = (loans st ! i)\<lparr>status := ''funded''\<rparr>)) \<and>
        (status (loans st ! i) = ''funded'' \<longrightarrow> status (loans st'' ! i) = ''funded'')"
    by auto
  from inv s(2) one len many' show ?thesis by (intro conjI)
qed

text \<open>Alice and Bob register, Alice lists her loan and Bob funds it: the loan was
  \<^verbatim>\<open>open\<close> and is \<^verbatim>\<open>funded\<close>, nothing else of it has changed, and it stays \<^verbatim>\<open>funded\<close>
  when the repayments are processed and Bob tries to fund it again.\<close>

theorem loan_status_open_then_funded_witness:
  "listed = store_after decimal_lib init_store listing_session \<and>
   funded = final (run_command decimal_lib listed (Invest ''e5f6a7b8'' ''0c9d8e7f'' (fixed_day 739252))) \<and>
   list_all (\<lambda>l. status l = ''open'' \<or> status l = ''funded'') (loans listed) \<and>
   status (loans listed ! 0) = ''open'' \<and>
   loans funded ! 0 = (loans listed ! 0)\<lparr>status := ''funded''\<rparr> \<and>
   Printed Investment_successful \<in>
     set (trace (run_command decimal_lib listed (Invest ''e5f6a7b8'' ''0c9d8e7f'' (fixed_day 739252)))) \<and>
   both_paid = store_after decimal_lib funded
                 [Process 739313, Invest ''e5f6a7b8'' ''0c9d8e7f'' (fixed_day 739313)] \<and>
   funded = store_after decimal_lib init_store
              (listing_session @ [Invest ''e5f6a7b8'' ''0c9d8e7f'' (fixed_day 739252)]) \<and>
   status (loans funded ! 0) = ''funded'' \<and>
   status (loans both_paid ! 0) = ''funded''"
proof -
  have a: "listed = store_after decimal_lib init_store listing_session" by code_simp
  have b: "funded = final (run_command decimal_lib listed (Invest ''e5f6a7b8'' ''0c9d8e7f'' (fixed_day 739252)))"
    by code_simp
  have c: "both_paid = store_after decimal_lib funded
                 [Process 739313, Invest ''e5f6a7b8'' ''0c9d8e7f'' (fixed_day 739313)]"
    by code_simp
  have d: "funded = store_after decimal_lib init_store
              (listing_session @ [Invest ''e5f6a7b8'' ''0c9d8e7f'' (fixed_day 739252)])"
    by code_simp
  have e: "listed = store_after decimal_lib listed []" by simp
  have len: "0 < length (loans listed)" "0 < length (loans funded)"
    by (simp_all add: listed_def funded_def)
  have changed: "loans funded ! 0 \<noteq> loans listed ! 0"
    by (simp add: listed_def funded_def loan_of_def)
  note t = loan_status_open_then_funded [OF a b e]
  from t have 1: "list_all (\<lambda>l. status l = ''open'' \<or> status l = ''funded'') (loans listed)"
    by (rule conjunct1)
  from t len changed have 2: "status (loans listed ! 0) = ''open''"
    and 3: "loans funded ! 0 = (loans listed ! 0)\<lparr>status := ''funded''\<rparr>"
    and 4: "Printed Investment_successful \<in>
     set (trace (run_command decimal_lib listed (Invest ''e5f6a7b8'' ''0c9d8e7f'' (fixed_day 739252))))"
    by auto
  have f: "status (loans funded ! 0) = ''funded''"
    by (simp add: funded_def loan_of_def)
  have g: "final (run_command decimal_lib funded View_loans) = funded"
    by (simp add: returns_def)
  from loan_status_open_then_funded [OF d g [symmetric] c] len f
  have 5: "status (loans both_paid ! 0) = ''funded''"
    by auto
  show ?thesis by (intro conjI) (rule a b c d f 1 2 3 4 5)+
qed

section \<open>The claim about the menu\<close>

text \<open>
  Claim C6 does not hold of the code. \<^verbatim>\<open>menu\<close> has no exception handler, and
  \<^verbatim>\<open>list_loan\<close> converts the three entries with \<^verbatim>\<open>float\<close> and \<^verbatim>\<open>int\<close> outside any
  \<^verbatim>\<open>try\<close>: when a valid borrower types an amount, a rate or a duration that is not a
  number, the ValueError of the conversion leaves \<^verbatim>\<open>list_loan\<close> and then \<^verbatim>\<open>menu\<close>. No
  message is printed for the failure, the store is unchanged, and the turns \<open>cs\<close> that
  would follow are never read: the loop has terminated without the exit choice.
\<close>

theorem menu_stops_at_entry_that_is_not_a_number:
  assumes "has_role (users st) borrower ''borrower''"
    and "float_of L amount_in = None \<or> float_of L rate_in = None \<or>
         int_of L duration_in = None"
  shows "menu L st (List_loan borrower amount_in rate_in duration_in new_id # cs) =
           raises st [Printed Menu_text] ValueError"
proof -
  from assms have "list_loan L new_id st borrower amount_in rate_in duration_in =
      raises st [] ValueError"
    by (auto simp: list_loan_def split: option.splits)
  then show ?thesis by (simp add: raises_def after_def)
qed

text \<open>Alice types \<^verbatim>\<open>abc\<close> for the amount of a loan: the menu stops with the ValueError,
  before the two turns that follow.\<close>

theorem menu_stops_at_entry_that_is_not_a_number_witness:
  "has_role (users listed) ''a1b2c3d4'' ''borrower'' \<and>
   float_of decimal_lib ''abc'' = None \<and>
   menu decimal_lib listed
     [List_loan ''a1b2c3d4'' ''abc'' ''10'' ''2'' ''1f2e3d4c'', View_loans, Exit_menu] =
     raises listed [Printed Menu_text] ValueError"
proof -
  have a: "has_role (users listed) ''a1b2c3d4'' ''borrower''" by code_simp
  have b: "float_of decimal_lib ''abc'' = None" by code_simp
  from b have c: "float_of decimal_lib ''abc'' = None \<or> float_of decimal_lib ''10'' = None \<or>
         int_of decimal_lib ''2'' = None"
    by (rule disjI1)
  from menu_stops_at_entry_that_is_not_a_number [OF a c]
  have d: "menu decimal_lib listed
     [List_loan ''a1b2c3d4'' ''abc'' ''10'' ''2'' ''1f2e3d4c'', View_loans, Exit_menu] =
     raises listed [Printed Menu_text] ValueError" .
  show ?thesis by (intro conjI) (rule a b d)+
qed

end
